theory Spec2Isabelle
  imports Main "HOL-Library.AList"
begin

section \<open>Python values\<close>

text \<open>
  A Python \<open>str\<close> is a sequence of Unicode code points, so it is modelled as a list of
  code points: \<open>len\<close> is \<open>length\<close> and \<open>str.isdigit\<close> looks at one code point at a
  time. The string literals of \<open>unified_backend.py\<close> that are not ASCII are written
  as their code points, with the line of the source they come from.
\<close>

type_synonym pystr = "nat list"

definition ascii :: "string \<Rightarrow> pystr" where
  "ascii s = map of_char s"

text \<open>
  The values that travel through \<open>save_result\<close>, which has no type annotations:
  \<open>None\<close>, \<open>bool\<close>, \<open>int\<close>, \<open>str\<close>, \<open>list\<close> and \<open>dict\<close> with \<open>str\<close> keys (a
  dict keeps its insertion order, so it is an association list).
\<close>

datatype pyval =
    PNone
  | PBool bool
  | PInt int
  | PStr pystr
  | PList "pyval list"
  | PDict "(pystr \<times> pyval) list"

text \<open>
  The exceptions of the model. An exception that the interpreter raises is modelled by
  its class; \<open>Raised msg\<close> is an exception (a subclass of \<open>Exception\<close>) that comes
  out of a call into the file system or the Supabase client, with its message.
\<close>

datatype py_exception =
    ValueError
  | AttributeError
  | IndexError
  | UnicodeEncodeError
  | Raised pystr

text \<open>
  An f-string of the source is either plain text or a literal prefix followed by
  \<open>{e}\<close>, the \<open>str\<close> of a caught exception.
\<close>

datatype message = Plain pystr | WithError pystr py_exception

subsection \<open>Truthiness, \<open>str.isdigit\<close> and \<open>int\<close>\<close>

fun truthy :: "pyval \<Rightarrow> bool" where
  "truthy PNone = False"
| "truthy (PBool b) = b"
| "truthy (PInt i) = (i \<noteq> 0)"
| "truthy (PStr s) = (s \<noteq> [])"
| "truthy (PList xs) = (xs \<noteq> [])"
| "truthy (PDict kvs) = (kvs \<noteq> [])"

text \<open>
  The Unicode character database (version 14.0.0, the one of CPython 3.11): the code
  points of general category \<open>Nd\<close> come in runs of ten, \<open>0\<close> to \<open>9\<close>, and each run
  is listed by its zero. The other code points with a digit value (superscripts,
  circled digits and so on) are listed as inclusive ranges.
\<close>

definition decimal_zeros :: "nat list" where
  "decimal_zeros =
    [48, 1632, 1776, 1984, 2406, 2534, 2662, 2790, 2918, 3046, 3174, 3302, 3430, 3558,
     3664, 3792, 3872, 4160, 4240, 6112, 6160, 6470, 6608, 6784, 6800, 6992, 7088, 7232,
     7248, 42528, 43216, 43264, 43472, 43504, 43600, 44016, 65296, 66720, 68912, 69734,
     69872, 69942, 70096, 70384, 70736, 70864, 71248, 71360, 71472, 71904, 72016, 72784,
     73040, 73120, 92768, 92864, 93008, 120782, 120792, 120802, 120812, 120822, 123200,
     123632, 125264, 130032]"

definition other_digit_ranges :: "(nat \<times> nat) list" where
  "other_digit_ranges =
    [(178, 179), (185, 185), (4969, 4977), (6618, 6618), (8304, 8304), (8308, 8313),
     (8320, 8329), (9312, 9320), (9332, 9340), (9352, 9360), (9450, 9450), (9461, 9469),
     (9471, 9471), (10102, 10110), (10112, 10120), (10122, 10130), (68160, 68163),
     (69216, 69224), (69714, 69722), (127232, 127242)]"

text \<open>\<open>unicodedata.decimal(c, None)\<close>: the value of a decimal digit.\<close>

definition decimal_value :: "nat \<Rightarrow> nat option" where
  "decimal_value c =
     (case find (\<lambda>z. z \<le> c \<and> c < z + 10) decimal_zeros of
        None \<Rightarrow> None
      | Some z \<Rightarrow> Some (c - z))"

text \<open>One character of \<open>str.isdigit\<close>: a decimal digit or another digit.\<close>

definition is_digit_char :: "nat \<Rightarrow> bool" where
  "is_digit_char c =
     (decimal_value c \<noteq> None \<or> list_ex (\<lambda>(lo, hi). lo \<le> c \<and> c \<le> hi) other_digit_ranges)"

text \<open>\<open>s.isdigit()\<close>: every character is a digit and there is at least one.\<close>

definition py_isdigit :: "pystr \<Rightarrow> bool" where
  "py_isdigit s = (s \<noteq> [] \<and> list_all is_digit_char s)"

text \<open>
  The value of a string of decimal digits read in base ten, most significant digit
  first; \<open>None\<close> as soon as a character has no decimal value.
\<close>

fun decimal_digits_value :: "nat \<Rightarrow> pystr \<Rightarrow> nat option" where
  "decimal_digits_value acc [] = Some acc"
| "decimal_digits_value acc (c # cs) =
     (case decimal_value c of
        None \<Rightarrow> None
      | Some d \<Rightarrow> decimal_digits_value (10 * acc + d) cs)"

text \<open>
  \<open>int(s)\<close> on a string \<open>s\<close> for which \<open>s.isdigit()\<close> holds, the only strings the
  source passes to \<open>int\<close> (the signs, blanks and underscores that \<open>int\<close> also reads
  are not digits). It raises \<open>ValueError\<close> when a character is a digit without a
  decimal value, such as a superscript two, and when the string has more digits than
  \<open>sys.get_int_max_str_digits()\<close> allows; the limit is \<open>0\<close> when it is switched off
  and is only looked at above 640 digits.
\<close>

definition py_int :: "nat \<Rightarrow> pystr \<Rightarrow> py_exception + int" where
  "py_int max_str_digits s =
     (if 640 < length s \<and> 0 < max_str_digits \<and> max_str_digits < length s then Inl ValueError
      else case decimal_digits_value 0 s of
             None \<Rightarrow> Inl ValueError
           | Some n \<Rightarrow> Inr (int n))"

subsection \<open>\<open>str\<close> of an integer and \<open>json.dumps\<close>\<close>

function digits_of :: "nat \<Rightarrow> pystr" where
  "digits_of n = (if n < 10 then [48 + n] else digits_of (n div 10) @ [48 + n mod 10])"
  by pat_completeness auto
termination
  by (relation "measure id") auto

declare digits_of.simps [simp del]

definition py_repr_int :: "int \<Rightarrow> pystr" where
  "py_repr_int i = (if i < 0 then 45 # digits_of (nat (- i)) else digits_of (nat i))"

text \<open>\<open>sep.join(parts)\<close>.\<close>

fun py_join :: "pystr \<Rightarrow> pystr list \<Rightarrow> pystr" where
  "py_join sep [] = []"
| "py_join sep [x] = x"
| "py_join sep (x # y # ys) = x @ sep @ py_join sep (y # ys)"

text \<open>
  One character inside a JSON string with \<open>ensure_ascii=False\<close>: the quote, the
  backslash and the control characters below U+0020 are escaped, everything else is
  written as it is.
\<close>

definition hex_digit :: "nat \<Rightarrow> nat" where
  "hex_digit d = (if d < 10 then 48 + d else 87 + d)"

definition escape_char :: "nat \<Rightarrow> pystr" where
  "escape_char c =
     (if c = 34 then [92, 34]
      else if c = 92 then [92, 92]
      else if c = 10 then [92, 110]
      else if c = 13 then [92, 114]
      else if c = 9 then [92, 116]
      else if c = 8 then [92, 98]
      else if c = 12 then [92, 102]
      else if c < 32 then [92, 117, 48, 48, hex_digit (c div 16), hex_digit (c mod 16)]
      else [c])"

definition encode_basestring :: "pystr \<Rightarrow> pystr" where
  "encode_basestring s = [34] @ concat (map escape_char s) @ [34]"

text \<open>
  \<open>json.dumps(v, ensure_ascii=False)\<close> with the default separators \<open>", "\<close> and
  \<open>": "\<close>, on the values of \<^typ>\<open>pyval\<close>.
\<close>

fun json_dumps :: "pyval \<Rightarrow> pystr"
  and dumps_items :: "pyval list \<Rightarrow> pystr list"
  and dumps_members :: "(pystr \<times> pyval) list \<Rightarrow> pystr list" where
  "json_dumps PNone = ascii ''null''"
| "json_dumps (PBool b) = (if b then ascii ''true'' else ascii ''false'')"
| "json_dumps (PInt i) = py_repr_int i"
| "json_dumps (PStr s) = encode_basestring s"
| "json_dumps (PList xs) = [91] @ py_join [44, 32] (dumps_items xs) @ [93]"
| "json_dumps (PDict kvs) = [123] @ py_join [44, 32] (dumps_members kvs) @ [125]"
| "dumps_items [] = []"
| "dumps_items (x # xs) = json_dumps x # dumps_items xs"
| "dumps_members [] = []"
| "dumps_members ((k, v) # kvs) = (encode_basestring k @ [58, 32] @ json_dumps v) # dumps_members kvs"

section \<open>Data model\<close>

record UserProfile =
  name :: pystr
  age :: int
  department :: pystr

record AssessmentRequest =
  profile :: UserProfile
  answers :: "pystr list"
  timestamp :: pystr
  department_questions :: "pystr list"
  quiet_responses :: "pystr list"
  heart_landscape :: pystr

record QuietAnalysisResult =
  overview :: pystr
  characteristics :: "pystr list"
  quiet_analysis :: pystr
  diagnostic_tags :: "pystr list"
  alert_indicators :: "pystr list"

record AssessmentResult =
  profile :: UserProfile
  quiet_analysis :: QuietAnalysisResult
  final_diagnosis :: pystr
  alert :: bool
  alert_reason :: "pystr option"
  image_prompt :: pystr
  image_url :: "pystr option"
  timestamp :: pystr

text \<open>The row that \<open>save_result\<close> inserts into the table \<open>diagnostic_results\<close>.\<close>

record diagnostic_row =
  user_id :: pystr
  score_summary :: "(pystr \<times> int) list"
  gpt_comment :: pystr
  origin :: pystr

text \<open>
  The module-level flags, set once when the module is loaded, and the interpreter's
  limit on the digits of an integer literal (\<open>0\<close>: no limit).
\<close>

record config =
  OPENAI_ENABLED :: bool
  SUPABASE_ENABLED :: bool
  int_max_str_digits :: nat

subsection \<open>The world outside the process\<close>

text \<open>
  What the calls into the outside do is not decided by the program. One request sees:
  the two readings of the clock (\<open>datetime.now().isoformat()\<close> at line 238 and at line
  98), what the \<open>with open(...)\<close> block of lines 93 to 100 does, and what
  \<open>insert(...).execute()\<close> of lines 113 to 118 does.
  \<open>OpenRaises x\<close>: \<open>open\<close> raises \<open>x\<close> and nothing is written.
  \<open>WriteRaises n x\<close>: the block raises \<open>x\<close> after the first \<open>n\<close> characters of its
  text have reached the file; a text that the file's UTF-8 encoding refuses is one
  cause of it.
  \<open>InsertRaises x\<close>: the insert raises \<open>x\<close> and stores no row.

  What the model takes for granted: an exception that comes out of these calls is a
  subclass of \<open>Exception\<close>, so that \<open>except Exception\<close> catches it;
  \<open>json.dumps\<close> and \<open>result.dict()\<close> do not raise on the values they are given
  here.
\<close>

datatype local_outcome = Written | OpenRaises py_exception | WriteRaises nat py_exception

datatype remote_outcome = Inserted | InsertRaises py_exception

record env =
  now_result :: pystr
  now_saved :: pystr
  local_io :: local_outcome
  remote_io :: remote_outcome

text \<open>
  The effects of a run, in the order they happen, and the two stores: the text of
  \<open>results.json\<close> and the rows of the remote table.
\<close>

datatype event =
    Printed message
  | FileAppended pystr
  | InsertIssued diagnostic_row

record world =
  results_file :: pystr
  diagnostic_results :: "diagnostic_row list"
  trace :: "event list"

text \<open>
  \<open>print\<close> writes to a console that encodes its text as UTF-8 with strict error
  handling, Python's default for \<open>sys.stdout\<close>: a lone surrogate (U+D800 to U+DFFF)
  cannot be encoded, \<open>print\<close> then raises \<open>UnicodeEncodeError\<close> and writes
  nothing. A \<open>str\<close> may hold one: a JSON string with the escape of U+D800 alone is
  read as such a string. Every other code point is encodable. The text of a caught exception is
  taken to be encodable: the messages of the interpreter and of the libraries quote the
  characters they mention in escaped form.
\<close>

definition has_surrogate :: "pystr \<Rightarrow> bool" where
  "has_surrogate t = list_ex (\<lambda>c. 55296 \<le> c \<and> c \<le> 57343) t"

fun unencodable :: "message \<Rightarrow> bool" where
  "unencodable (Plain t) = has_surrogate t"
| "unencodable (WithError prefix x) = has_surrogate prefix"

text \<open>The world after a line has been written to the console.\<close>

definition with_line :: "message \<Rightarrow> world \<Rightarrow> world" where
  "with_line m w = w\<lparr>trace := trace w @ [Printed m]\<rparr>"

definition print :: "message \<Rightarrow> world \<Rightarrow> (py_exception + unit) \<times> world" where
  "print m w = (if unencodable m then (Inl UnicodeEncodeError, w) else (Inr (), with_line m w))"

text \<open>Writing to a file opened with mode \<open>"a"\<close>: the text goes after what is there.\<close>

definition file_append :: "pystr \<Rightarrow> world \<Rightarrow> world" where
  "file_append t w = w\<lparr>results_file := results_file w @ t, trace := trace w @ [FileAppended t]\<rparr>"

definition insert_issued :: "diagnostic_row \<Rightarrow> world \<Rightarrow> world" where
  "insert_issued r w = w\<lparr>trace := trace w @ [InsertIssued r]\<rparr>"

definition row_stored :: "diagnostic_row \<Rightarrow> world \<Rightarrow> world" where
  "row_stored r w = w\<lparr>diagnostic_results := diagnostic_results w @ [r]\<rparr>"

section \<open>The result sink: \<open>save_result\<close>\<close>

text \<open>The prefixes of the f-strings of lines 120, 123, 125 and 128.\<close>

definition MSG_SUPABASE_SAVED :: pystr where
  "MSG_SUPABASE_SAVED = [9989, 32] @ ascii ''Supabase'' @ [20445, 23384, 23436, 20102, 58, 32]"

definition MSG_SUPABASE_ERROR :: pystr where
  "MSG_SUPABASE_ERROR = [10060, 32] @ ascii ''Supabase'' @ [20445, 23384, 12456, 12521, 12540, 58, 32]"

definition MSG_RESULT_SAVED :: pystr where
  "MSG_RESULT_SAVED = [9989, 32, 32080, 26524, 20445, 23384, 23436, 20102, 58, 32]"

definition MSG_SAVE_ERROR :: pystr where
  "MSG_SAVE_ERROR = [10060, 32, 20445, 23384, 12456, 12521, 12540, 58, 32]"

text \<open>
  Lines 93 to 100: the record \<open>{id, answers, result, timestamp}\<close> is serialised and
  written, then a newline (code point 10).
\<close>

definition log_record :: "pystr \<Rightarrow> pyval \<Rightarrow> pyval \<Rightarrow> pystr \<Rightarrow> pyval" where
  "log_record uid ans gpt_result now =
     PDict [(ascii ''id'', PStr uid),
            (ascii ''answers'', ans),
            (ascii ''result'', gpt_result),
            (ascii ''timestamp'', PStr now)]"

definition log_line :: "pystr \<Rightarrow> pyval \<Rightarrow> pyval \<Rightarrow> pystr \<Rightarrow> pystr" where
  "log_line uid ans gpt_result now = json_dumps (log_record uid ans gpt_result now) @ [10]"

definition local_step :: "env \<Rightarrow> pystr \<Rightarrow> pyval \<Rightarrow> pyval \<Rightarrow> world \<Rightarrow> (py_exception + unit) \<times> world" where
  "local_step e uid ans gpt_result w =
     (let text = log_line uid ans gpt_result (now_saved e)
      in case local_io e of
           Written \<Rightarrow> (Inr (), file_append text w)
         | OpenRaises x \<Rightarrow> (Inl x, w)
         | WriteRaises n x \<Rightarrow> (Inl x, file_append (take n text) w))"

text \<open>
  Lines 106 to 110. The key of position \<open>i\<close> (counted from 0) is \<open>f"q{i+1}"\<close>;
  \<open>score_data[key] = value\<close> replaces the value of a key that is there and adds a
  new key at the end. An answer that is falsy is passed over by the \<open>and\<close>; on a
  truthy answer \<open>answer.isdigit()\<close> is called, a method that only \<open>str\<close> has, so
  a value of any other type raises \<open>AttributeError\<close>.
\<close>

definition q_key :: "nat \<Rightarrow> pystr" where
  "q_key i = 113 # py_repr_int (int i + 1)"

fun score_loop :: "nat \<Rightarrow> nat \<Rightarrow> pyval list \<Rightarrow> (pystr \<times> int) list \<Rightarrow> py_exception + (pystr \<times> int) list" where
  "score_loop lim i [] score_data = Inr score_data"
| "score_loop lim i (answer # rest) score_data =
     (if \<not> truthy answer then score_loop lim (i + 1) rest score_data
      else case answer of
             PStr s \<Rightarrow>
               if py_isdigit s then
                 (case py_int lim s of
                    Inl x \<Rightarrow> Inl x
                  | Inr v \<Rightarrow> score_loop lim (i + 1) rest (AList.update (q_key i) v score_data))
               else score_loop lim (i + 1) rest score_data
           | _ \<Rightarrow> Inl AttributeError)"

definition build_score_data :: "config \<Rightarrow> pyval \<Rightarrow> py_exception + (pystr \<times> int) list" where
  "build_score_data cfg ans =
     (case ans of
        PList xs \<Rightarrow>
          if length xs \<ge> 10 then score_loop (int_max_str_digits cfg) 0 (take 10 xs) []
          else Inr []
      | _ \<Rightarrow> Inr [])"

text \<open>Lines 105 to 120, the body of the inner \<open>try\<close>.\<close>

definition remote_step :: "config \<Rightarrow> env \<Rightarrow> pystr \<Rightarrow> pyval \<Rightarrow> pyval \<Rightarrow> world \<Rightarrow> (py_exception + unit) \<times> world" where
  "remote_step cfg e uid ans gpt_result w =
     (case build_score_data cfg ans of
        Inl x \<Rightarrow> (Inl x, w)
      | Inr score_data \<Rightarrow>
          let row = \<lparr>user_id = uid,
                     score_summary = score_data,
                     gpt_comment = json_dumps gpt_result,
                     origin = ascii ''mindscape''\<rparr>;
              w1 = insert_issued row w
          in case remote_io e of
               InsertRaises x \<Rightarrow> (Inl x, w1)
             | Inserted \<Rightarrow> print (Plain (MSG_SUPABASE_SAVED @ uid)) (row_stored row w1))"

text \<open>
  Lines 103 to 123: the remote step with the inner handler, which prints the error
  and goes on. An exception raised by the handler's own \<open>print\<close> leaves the
  statement.
\<close>

definition remote_guarded :: "config \<Rightarrow> env \<Rightarrow> pystr \<Rightarrow> pyval \<Rightarrow> pyval \<Rightarrow> world \<Rightarrow> (py_exception + unit) \<times> world" where
  "remote_guarded cfg e uid ans gpt_result w =
     (if SUPABASE_ENABLED cfg then
        (case remote_step cfg e uid ans gpt_result w of
           (Inl x, w') \<Rightarrow> print (WithError MSG_SUPABASE_ERROR x) w'
         | (Inr u, w') \<Rightarrow> (Inr (), w'))
      else (Inr (), w))"

text \<open>Lines 92 to 125, the body of the outer \<open>try\<close>.\<close>

definition save_body :: "config \<Rightarrow> env \<Rightarrow> pystr \<Rightarrow> pyval \<Rightarrow> pyval \<Rightarrow> world \<Rightarrow> (py_exception + unit) \<times> world" where
  "save_body cfg e uid ans gpt_result w =
     (case local_step e uid ans gpt_result w of
        (Inl x, w1) \<Rightarrow> (Inl x, w1)
      | (Inr u, w1) \<Rightarrow>
          (case remote_guarded cfg e uid ans gpt_result w1 of
             (Inl x, w2) \<Rightarrow> (Inl x, w2)
           | (Inr u', w2) \<Rightarrow> print (Plain (MSG_RESULT_SAVED @ uid)) w2))"

text \<open>
  Lines 89 to 128: the outer handler prints the error and the call ends; what the
  handler's \<open>print\<close> does is what the call does.
\<close>

definition save_result :: "config \<Rightarrow> env \<Rightarrow> pystr \<Rightarrow> pyval \<Rightarrow> pyval \<Rightarrow> world \<Rightarrow> (py_exception + unit) \<times> world" where
  "save_result cfg e uid ans gpt_result w =
     (case save_body cfg e uid ans gpt_result w of
        (Inl x, w1) \<Rightarrow> print (WithError MSG_SAVE_ERROR x) w1
      | (Inr u, w1) \<Rightarrow> (Inr (), w1))"

section \<open>The analysis dispatcher\<close>

text \<open>The prefix of the f-string of line 189 and the constants of lines 196 to 209.\<close>

definition MSG_ANALYSIS_START :: pystr where
  "MSG_ANALYSIS_START = [129504, 32, 20998, 26512, 38283, 22987, 58, 32]"

definition FALLBACK_OVERVIEW_SUFFIX :: pystr where
  "FALLBACK_OVERVIEW_SUFFIX = [37096, 38272, 12391, 12398, 23433, 23450, 12375, 12383, 29366, 24907]"

definition fallback_analysis :: "pystr list \<Rightarrow> UserProfile \<Rightarrow> QuietAnalysisResult" where
  "fallback_analysis qr p =
     \<lparr>overview = department p @ FALLBACK_OVERVIEW_SUFFIX,
      characteristics = [[36012, 20219, 24863], [21332, 35519, 24615], [21521, 19978, 24515]],
      QuietAnalysisResult.quiet_analysis =
        [12501, 12457, 12540, 12523, 12496, 12483, 12463, 20998, 26512, 12395, 12424, 12427, 35413, 20385],
      diagnostic_tags = [ascii ''stable_state''],
      alert_indicators = []\<rparr>"

text \<open>Lines 195 to 201: what the dispatcher returns when \<open>OPENAI_ENABLED\<close> is set.\<close>

definition openai_analysis :: QuietAnalysisResult where
  "openai_analysis =
     \<lparr>overview = [23433, 23450, 12375, 12383, 24515, 29702, 29366, 24907],
      characteristics = [[12496, 12521, 12531, 12473, 33391, 22909], [21069, 21521, 12365], [36969, 24540, 21147]],
      QuietAnalysisResult.quiet_analysis = [35443, 32048, 20998, 26512, 32080, 26524],
      diagnostic_tags = [ascii ''stable''],
      alert_indicators = []\<rparr>"

definition analyze_quiet_responses ::
    "config \<Rightarrow> pystr list \<Rightarrow> UserProfile \<Rightarrow> world \<Rightarrow> (py_exception + QuietAnalysisResult) \<times> world" where
  "analyze_quiet_responses cfg qr p w =
     (case print (Plain (MSG_ANALYSIS_START @ name p)) w of
        (Inl x, w1) \<Rightarrow> (Inl x, w1)
      | (Inr u, w1) \<Rightarrow>
          if \<not> OPENAI_ENABLED cfg then (Inr (fallback_analysis qr p), w1)
          else (Inr openai_analysis, w1))"

section \<open>The orchestrator: \<open>process_assessment\<close>\<close>

text \<open>\<open>result.dict()\<close>: the model and its sub-models as dicts, fields in declaration order.\<close>

definition opt_str :: "pystr option \<Rightarrow> pyval" where
  "opt_str v = (case v of None \<Rightarrow> PNone | Some s \<Rightarrow> PStr s)"

definition dict_of_profile :: "UserProfile \<Rightarrow> pyval" where
  "dict_of_profile p =
     PDict [(ascii ''name'', PStr (name p)),
            (ascii ''age'', PInt (age p)),
            (ascii ''department'', PStr (department p))]"

definition dict_of_analysis :: "QuietAnalysisResult \<Rightarrow> pyval" where
  "dict_of_analysis a =
     PDict [(ascii ''overview'', PStr (overview a)),
            (ascii ''characteristics'', PList (map PStr (characteristics a))),
            (ascii ''quiet_analysis'', PStr (QuietAnalysisResult.quiet_analysis a)),
            (ascii ''diagnostic_tags'', PList (map PStr (diagnostic_tags a))),
            (ascii ''alert_indicators'', PList (map PStr (alert_indicators a)))]"

definition dict_of_result :: "AssessmentResult \<Rightarrow> pyval" where
  "dict_of_result r =
     PDict [(ascii ''profile'', dict_of_profile (AssessmentResult.profile r)),
            (ascii ''quiet_analysis'', dict_of_analysis (AssessmentResult.quiet_analysis r)),
            (ascii ''final_diagnosis'', PStr (final_diagnosis r)),
            (ascii ''alert'', PBool (alert r)),
            (ascii ''alert_reason'', opt_str (alert_reason r)),
            (ascii ''image_prompt'', PStr (image_prompt r)),
            (ascii ''image_url'', opt_str (image_url r)),
            (ascii ''timestamp'', PStr (AssessmentResult.timestamp r))]"

text \<open>The prefixes of the f-strings of lines 220, 248, 252 and 253, and line 233.\<close>

definition MSG_PROCESS_START :: pystr where
  "MSG_PROCESS_START = [128640, 32, 35386, 26029, 20966, 29702, 38283, 22987, 58, 32]"

definition MSG_PROCESS_DONE :: pystr where
  "MSG_PROCESS_DONE = [9989, 32, 35386, 26029, 23436, 20102, 58, 32]"

definition MSG_PROCESS_ERROR :: pystr where
  "MSG_PROCESS_ERROR = [10060, 32, 35386, 26029, 20966, 29702, 12456, 12521, 12540, 58, 32]"

definition MSG_PROCESS_FAILED :: pystr where
  "MSG_PROCESS_FAILED = [35386, 26029, 20966, 29702, 22833, 25943, 58, 32]"

definition FINAL_DIAGNOSIS :: pystr where
  "FINAL_DIAGNOSIS = [35386, 26029, 23436, 20102]"

text \<open>
  What the endpoint raises: the \<open>HTTPException\<close> of line 253, or an exception that
  leaves the handler of line 251 itself.
\<close>

datatype endpoint_error =
    HTTPException (status_code: nat) (detail: message)
  | Unhandled py_exception

text \<open>\<open>xs[0]\<close>.\<close>

definition index0 :: "'a list \<Rightarrow> py_exception + 'a" where
  "index0 xs = (case xs of [] \<Rightarrow> Inl IndexError | x # _ \<Rightarrow> Inr x)"

type_synonym analyzer =
  "pystr list \<Rightarrow> UserProfile \<Rightarrow> world \<Rightarrow> (py_exception + QuietAnalysisResult) \<times> world"

text \<open>
  Lines 220 to 249, the body of the \<open>try\<close>. It is written over the analysis step it
  awaits at line 223, so that what the handler of line 251 does with an exception of
  that step can be stated; \<open>process_assessment\<close> below is the body with the
  dispatcher of the source.
\<close>

definition process_body ::
    "analyzer \<Rightarrow> config \<Rightarrow> env \<Rightarrow> AssessmentRequest \<Rightarrow> world \<Rightarrow> (py_exception + AssessmentResult) \<times> world" where
  "process_body analyze cfg e req w =
     (let p = AssessmentRequest.profile req
      in case print (Plain (MSG_PROCESS_START @ name p)) w of
           (Inl x, w0) \<Rightarrow> (Inl x, w0)
         | (Inr u0, w0) \<Rightarrow>
            (case analyze (quiet_responses req) p w0 of
               (Inl x, w1) \<Rightarrow> (Inl x, w1)
             | (Inr qa, w1) \<Rightarrow>
                 let alert_flag = (length (alert_indicators qa) > 0)
                 in case (if alert_flag then map_sum id Some (index0 (alert_indicators qa)) else Inr None) of
                      Inl x \<Rightarrow> (Inl x, w1)
                    | Inr reason \<Rightarrow>
                        let result = \<lparr>profile = p,
                                      quiet_analysis = qa,
                                      final_diagnosis = FINAL_DIAGNOSIS,
                                      alert = alert_flag,
                                      alert_reason = reason,
                                      image_prompt = ascii ''Beautiful landscape'',
                                      image_url = None,
                                      timestamp = now_result e\<rparr>
                        in case save_result cfg e (name p) (PList (map PStr (answers req)))
                                  (dict_of_result result) w1 of
                             (Inl x, w2) \<Rightarrow> (Inl x, w2)
                           | (Inr u, w2) \<Rightarrow>
                               (case print (Plain (MSG_PROCESS_DONE @ name p)) w2 of
                                  (Inl x, w3) \<Rightarrow> (Inl x, w3)
                                | (Inr u', w3) \<Rightarrow> (Inr result, w3))))"

text \<open>Lines 219 to 253: the \<open>try\<close> with its handler, which answers with status 500.\<close>

definition process_assessment_with ::
    "analyzer \<Rightarrow> config \<Rightarrow> env \<Rightarrow> AssessmentRequest \<Rightarrow> world \<Rightarrow> (endpoint_error + AssessmentResult) \<times> world" where
  "process_assessment_with analyze cfg e req w =
     (case process_body analyze cfg e req w of
        (Inl x, w') \<Rightarrow>
          (case print (WithError MSG_PROCESS_ERROR x) w' of
             (Inl y, w'') \<Rightarrow> (Inl (Unhandled y), w'')
           | (Inr u, w'') \<Rightarrow> (Inl (HTTPException 500 (WithError MSG_PROCESS_FAILED x)), w''))
      | (Inr r, w') \<Rightarrow> (Inr r, w'))"

definition process_assessment ::
    "config \<Rightarrow> env \<Rightarrow> AssessmentRequest \<Rightarrow> world \<Rightarrow> (endpoint_error + AssessmentResult) \<times> world" where
  "process_assessment cfg = process_assessment_with (analyze_quiet_responses cfg) cfg"

section \<open>Reading the remote store: \<open>get_supabase_results\<close>\<close>

text \<open>
  Lines 257 to 270. \<open>Selected rows\<close>: the \<open>select("*").execute()\<close> of line 263
  answers with \<open>rows\<close> as its \<open>data\<close>. The handler returns a dict, as the first
  branch does; nothing is raised.
\<close>

datatype select_outcome = Selected "pyval list" | SelectRaises py_exception

datatype results_payload =
    Error_payload message
  | Success_payload (status: pystr) (data: "pyval list") (count: nat)

definition MSG_NOT_CONFIGURED :: pystr where
  "MSG_NOT_CONFIGURED = ascii ''Supabase'' @ [26410, 35373, 23450]"

definition get_supabase_results :: "config \<Rightarrow> select_outcome \<Rightarrow> py_exception + results_payload" where
  "get_supabase_results cfg sel =
     (if \<not> SUPABASE_ENABLED cfg then Inr (Error_payload (Plain MSG_NOT_CONFIGURED))
      else case sel of
             Selected rows \<Rightarrow> Inr (Success_payload (ascii ''success'') rows (length rows))
           | SelectRaises x \<Rightarrow> Inr (Error_payload (WithError [] x)))"

section \<open>Sample inputs\<close>

text \<open>Concrete configurations, requests and worlds, for the closed instances of the theorems.\<close>

definition cfg_off :: config where
  "cfg_off = \<lparr>OPENAI_ENABLED = False, SUPABASE_ENABLED = False, int_max_str_digits = 4300\<rparr>"

definition cfg_on :: config where
  "cfg_on = \<lparr>OPENAI_ENABLED = True, SUPABASE_ENABLED = True, int_max_str_digits = 4300\<rparr>"

definition env_ok :: env where
  "env_ok = \<lparr>now_result = ascii ''2025-01-01T00:00:00'', now_saved = ascii ''2025-01-01T00:00:01'',
              local_io = Written, remote_io = Inserted\<rparr>"

definition profile0 :: UserProfile where
  "profile0 = \<lparr>name = ascii ''Aoi'', age = 30, department = ascii ''Sales''\<rparr>"

definition request0 :: AssessmentRequest where
  "request0 = \<lparr>AssessmentRequest.profile = profile0,
                answers = [ascii ''3''],
                AssessmentRequest.timestamp = ascii ''2025-01-01T00:00:00'',
                department_questions = [],
                quiet_responses = [ascii ''I feel fine'', ascii ''stable''],
                heart_landscape = ascii ''sea''\<rparr>"

text \<open>A profile whose name is the single lone surrogate U+D800, and a request with it.\<close>

definition profile_surrogate :: UserProfile where
  "profile_surrogate = \<lparr>name = [55296], age = 30, department = ascii ''Sales''\<rparr>"

definition request_surrogate :: AssessmentRequest where
  "request_surrogate = request0\<lparr>AssessmentRequest.profile := profile_surrogate\<rparr>"

definition world0 :: world where
  "world0 = \<lparr>results_file = [], diagnostic_results = [], trace = []\<rparr>"

definition risky_analyzer :: analyzer where
  "risky_analyzer qr p w =
     (Inr (openai_analysis\<lparr>alert_indicators := [ascii ''insomnia'', ascii ''isolation'']\<rparr>), w)"


text \<open>The events a run has added to the trace.\<close>

definition emitted :: "world \<Rightarrow> world \<Rightarrow> event list" where
  "emitted w w' = drop (length (trace w)) (trace w')"

definition env_disk_full :: env where
  "env_disk_full = env_ok\<lparr>local_io := OpenRaises (Raised (ascii ''disk full''))\<rparr>"

definition env_store_down :: env where
  "env_store_down = env_ok\<lparr>remote_io := InsertRaises (Raised (ascii ''store down''))\<rparr>"

definition answers_short :: pyval where
  "answers_short = PList [PStr (ascii ''3'')]"

definition world_old :: world where
  "world_old = \<lparr>results_file = ascii ''{}'' @ [10], diagnostic_results = [], trace = []\<rparr>"

text \<open>The answers of the spec's scenario 2.\<close>

definition answers_scenario :: "pystr list" where
  "answers_scenario =
     [ascii ''3'', ascii ''4'', ascii ''x'', ascii ''2'', ascii ''1'',
      ascii ''5'', ascii ''2'', ascii ''3'', ascii ''4'', ascii ''1'']"

section \<open>Properties\<close>

subsection \<open>\<open>json.dumps\<close> writes no line feed\<close>

lemma no_lf_ascii_null: "10 \<notin> set (ascii ''null'')" "10 \<notin> set (ascii ''true'')" "10 \<notin> set (ascii ''false'')"
  by (simp_all add: ascii_def)

lemma set_digits_of: "set (digits_of n) \<subseteq> {48..57}"
proof (induction n rule: digits_of.induct)
  case (1 n)
  show ?case
  proof (cases "n < 10")
    case True
    then show ?thesis by (subst digits_of.simps) simp
  next
    case False
    with 1 have "set (digits_of (n div 10)) \<subseteq> {48..57}" by simp
    moreover have "n mod 10 < 10" by simp
    then have "48 + n mod 10 \<le> 57" by linarith
    ultimately show ?thesis using False
      by (subst digits_of.simps) simp
  qed
qed

lemma no_lf_repr_int: "10 \<notin> set (py_repr_int i)"
  using set_digits_of [of "nat i"] set_digits_of [of "nat (- i)"]
  by (auto simp: py_repr_int_def)

lemma no_lf_escape_char: "10 \<notin> set (escape_char c)"
  by (simp add: escape_char_def hex_digit_def)

lemma no_lf_encode_basestring: "10 \<notin> set (encode_basestring s)"
  by (simp add: encode_basestring_def no_lf_escape_char)

lemma no_lf_join: "\<forall>x \<in> set xs. 10 \<notin> set x \<Longrightarrow> 10 \<notin> set sep \<Longrightarrow> 10 \<notin> set (py_join sep xs)"
  by (induction sep xs rule: py_join.induct) auto

lemma no_lf_dumps:
  "10 \<notin> set (json_dumps v)"
  "\<forall>x \<in> set (dumps_items vs). 10 \<notin> set x"
  "\<forall>x \<in> set (dumps_members kvs). 10 \<notin> set x"
proof (induction v and vs and kvs rule: json_dumps_dumps_items_dumps_members.induct)
  case 1
  then show ?case by (simp add: no_lf_ascii_null)
next
  case (2 b)
  then show ?case by (simp add: no_lf_ascii_null)
next
  case (3 i)
  then show ?case by (simp add: no_lf_repr_int)
next
  case (4 s)
  then show ?case by (simp add: no_lf_encode_basestring)
next
  case (5 xs)
  then show ?case by (simp add: no_lf_join)
next
  case (6 kvs)
  then show ?case by (simp add: no_lf_join)
next
  case 7
  then show ?case by simp
next
  case (8 x xs)
  then show ?case by simp
next
  case 9
  then show ?case by simp
next
  case (10 k v kvs)
  then show ?case by (simp add: no_lf_encode_basestring)
qed

lemma count_lf_log_line: "count_list (log_line uid ans g now) 10 = 1"
  using no_lf_dumps(1) [of "log_record uid ans g now"]
  by (simp add: log_line_def count_list_0_iff)

subsection \<open>Digits and keys\<close>

lemma decimal_value_ascii: "d < 10 \<Longrightarrow> decimal_value (48 + d) = Some d"
  by (simp add: decimal_value_def decimal_zeros_def)

lemma decimal_digits_value_append:
  "decimal_digits_value acc (xs @ ys) =
     (case decimal_digits_value acc xs of None \<Rightarrow> None | Some a \<Rightarrow> decimal_digits_value a ys)"
  by (induction xs arbitrary: acc) (auto split: option.splits)

lemma digits_of_roundtrip: "decimal_digits_value 0 (digits_of n) = Some n"
proof (induction n rule: digits_of.induct)
  case (1 n)
  show ?case
  proof (cases "n < 10")
    case True
    then show ?thesis by (subst digits_of.simps) (simp add: decimal_value_ascii)
  next
    case False
    with 1 have "decimal_digits_value 0 (digits_of (n div 10)) = Some (n div 10)" by simp
    with False show ?thesis
      by (subst digits_of.simps) (simp add: decimal_digits_value_append decimal_value_ascii)
  qed
qed

lemma digits_of_inj:
  assumes "digits_of m = digits_of n"
  shows "m = n"
proof -
  have "Some m = decimal_digits_value 0 (digits_of m)"
    by (simp only: digits_of_roundtrip)
  also have "\<dots> = decimal_digits_value 0 (digits_of n)"
    by (simp only: assms)
  also have "\<dots> = Some n"
    by (rule digits_of_roundtrip)
  finally show ?thesis by simp
qed

lemma q_key_digits: "q_key i = 113 # digits_of (Suc i)"
proof -
  have "nat (int i + 1) = Suc i" by simp
  then show ?thesis by (simp add: q_key_def py_repr_int_def)
qed

lemma q_key_inj: "q_key i = q_key j \<Longrightarrow> i = j"
  using digits_of_inj [of "Suc i" "Suc j"] by (simp add: q_key_digits)

lemma q_keys_ten:
  "map q_key [0..<10] =
     [ascii ''q1'', ascii ''q2'', ascii ''q3'', ascii ''q4'', ascii ''q5'',
      ascii ''q6'', ascii ''q7'', ascii ''q8'', ascii ''q9'', ascii ''q10'']"
proof -
  have "[0..<10] = [0, 1, 2, 3, 4, 5, 6, 7, 8, 9::nat]"
    by (simp add: upt_rec)
  then show ?thesis
    by (simp add: q_key_digits digits_of.simps ascii_def)
qed

subsection \<open>The loop of lines 108 to 110 on a list of strings\<close>

lemma py_int_nonneg: "py_int lim s = Inr v \<Longrightarrow> 0 \<le> v"
  by (auto simp: py_int_def split: if_splits option.splits)

lemma py_int_error: "py_int lim s = Inl x \<Longrightarrow> x = ValueError"
  by (auto simp: py_int_def split: if_splits option.splits)

lemma length_update_le: "length (AList.update k v al) \<le> Suc (length al)"
  by (induction al) auto

lemma score_loop_str:
  "score_loop lim i (PStr s # rest) d =
     (if py_isdigit s then
        (case py_int lim s of
           Inl x \<Rightarrow> Inl x
         | Inr v \<Rightarrow> score_loop lim (Suc i) rest (AList.update (q_key i) v d))
      else score_loop lim (Suc i) rest d)"
  by (cases "py_int lim s") (simp_all add: py_isdigit_def)

lemma score_loop_raises:
  "score_loop lim i (map PStr ss) d = Inl x \<Longrightarrow>
     x = ValueError \<and> (\<exists>j<length ss. py_isdigit (ss ! j) \<and> py_int lim (ss ! j) = Inl ValueError)"
proof (induction ss arbitrary: i d)
  case Nil
  then show ?case by simp
next
  case (Cons s ss)
  show ?case
  proof (cases "py_isdigit s")
    case False
    with Cons.prems have "score_loop lim (Suc i) (map PStr ss) d = Inl x"
      by (simp add: score_loop_str del: score_loop.simps)
    from Cons.IH [OF this] show ?thesis by auto
  next
    case True
    show ?thesis
    proof (cases "py_int lim s")
      case (Inl y)
      with True Cons.prems have "x = y"
        by (simp add: score_loop_str del: score_loop.simps)
      with Inl py_int_error [OF Inl] True show ?thesis by auto
    next
      case (Inr v)
      with True Cons.prems
      have "score_loop lim (Suc i) (map PStr ss) (AList.update (q_key i) v d) = Inl x"
        by (simp add: score_loop_str del: score_loop.simps)
      from Cons.IH [OF this] show ?thesis by auto
    qed
  qed
qed

lemma score_loop_returns:
  "score_loop lim i (map PStr ss) d = Inr d' \<Longrightarrow>
     (\<forall>j<length ss.
        if py_isdigit (ss ! j)
        then \<exists>v. py_int lim (ss ! j) = Inr v \<and> map_of d' (q_key (i + j)) = Some v
        else map_of d' (q_key (i + j)) = map_of d (q_key (i + j)))
     \<and> (\<forall>k. k \<notin> q_key ` {i..<i + length ss} \<longrightarrow> map_of d' k = map_of d k)
     \<and> fst ` set d' \<subseteq> fst ` set d \<union> q_key ` {i..<i + length ss}
     \<and> (distinct (map fst d) \<longrightarrow> distinct (map fst d'))
     \<and> length d' \<le> length d + length ss"
proof (induction ss arbitrary: i d)
  case Nil
  then show ?case by simp
next
  case (Cons s ss)
  have fresh: "q_key i \<notin> q_key ` {Suc i..<Suc i + length ss}"
    using q_key_inj by fastforce
  have sub: "q_key ` {Suc i..<Suc i + length ss} \<subseteq> q_key ` {i..<i + length (s # ss)}"
    by auto
  have here: "q_key i \<in> q_key ` {i..<i + length (s # ss)}"
    by simp
  show ?case
  proof (cases "py_isdigit s")
    case False
    with Cons.prems have run: "score_loop lim (Suc i) (map PStr ss) d = Inr d'"
      by (simp add: score_loop_str del: score_loop.simps)
    note ih = Cons.IH [OF run]
    have "map_of d' (q_key i) = map_of d (q_key i)"
      using ih fresh by blast
    moreover have "\<forall>j<length ss.
        if py_isdigit (ss ! j)
        then \<exists>v. py_int lim (ss ! j) = Inr v \<and> map_of d' (q_key (i + Suc j)) = Some v
        else map_of d' (q_key (i + Suc j)) = map_of d (q_key (i + Suc j))"
      using ih by auto
    ultimately have first: "\<forall>j<length (s # ss).
        if py_isdigit ((s # ss) ! j)
        then \<exists>v. py_int lim ((s # ss) ! j) = Inr v \<and> map_of d' (q_key (i + j)) = Some v
        else map_of d' (q_key (i + j)) = map_of d (q_key (i + j))"
      using False by (auto simp: nth_Cons split: nat.splits)
    have second: "\<forall>k. k \<notin> q_key ` {i..<i + length (s # ss)} \<longrightarrow> map_of d' k = map_of d k"
      using ih sub by blast
    have third: "fst ` set d' \<subseteq> fst ` set d \<union> q_key ` {i..<i + length (s # ss)}"
      using ih sub by blast
    from first second third ih show ?thesis by simp
  next
    case True
    from True Cons.prems obtain v where v: "py_int lim s = Inr v"
      and run: "score_loop lim (Suc i) (map PStr ss) (AList.update (q_key i) v d) = Inr d'"
      by (cases "py_int lim s") (simp_all add: score_loop_str del: score_loop.simps)
    note ih = Cons.IH [OF run]
    have "map_of d' (q_key i) = Some v"
      using ih fresh by (simp add: update_conv')
    moreover have "\<forall>j<length ss.
        if py_isdigit (ss ! j)
        then \<exists>v. py_int lim (ss ! j) = Inr v \<and> map_of d' (q_key (i + Suc j)) = Some v
        else map_of d' (q_key (i + Suc j)) = map_of d (q_key (i + Suc j))"
    proof (intro allI impI)
      fix j assume j: "j < length ss"
      have "q_key (Suc i + j) \<noteq> q_key i"
        using q_key_inj [of "Suc i + j" i] by auto
      then have "map_of (AList.update (q_key i) v d) (q_key (Suc i + j)) = map_of d (q_key (Suc i + j))"
        by (simp add: update_conv')
      with ih j show "if py_isdigit (ss ! j)
        then \<exists>v. py_int lim (ss ! j) = Inr v \<and> map_of d' (q_key (i + Suc j)) = Some v
        else map_of d' (q_key (i + Suc j)) = map_of d (q_key (i + Suc j))"
        by (auto split: if_splits)
    qed
    ultimately have first: "\<forall>j<length (s # ss).
        if py_isdigit ((s # ss) ! j)
        then \<exists>v. py_int lim ((s # ss) ! j) = Inr v \<and> map_of d' (q_key (i + j)) = Some v
        else map_of d' (q_key (i + j)) = map_of d (q_key (i + j))"
      using True v by (auto simp: nth_Cons split: nat.splits)
    have second: "\<forall>k. k \<notin> q_key ` {i..<i + length (s # ss)} \<longrightarrow> map_of d' k = map_of d k"
    proof (intro allI impI)
      fix k assume k: "k \<notin> q_key ` {i..<i + length (s # ss)}"
      with sub here have "k \<notin> q_key ` {Suc i..<Suc i + length ss}" "k \<noteq> q_key i"
        by blast+
      with ih show "map_of d' k = map_of d k"
        by (simp add: update_conv')
    qed
    have third: "fst ` set d' \<subseteq> fst ` set d \<union> q_key ` {i..<i + length (s # ss)}"
      using ih sub here by (auto simp: dom_update)
    have fourth: "distinct (map fst d) \<longrightarrow> distinct (map fst d')"
      using ih by (simp add: distinct_update)
    have "length (AList.update (q_key i) v d) \<le> Suc (length d)"
      by (rule length_update_le)
    with ih have fifth: "length d' \<le> length d + length (s # ss)"
      by simp
    from first second third fourth fifth show ?thesis by simp
  qed
qed

subsection \<open>Evaluating the digit tables\<close>

lemmas digit_tables =
  py_isdigit_def is_digit_char_def decimal_value_def decimal_zeros_def other_digit_ranges_def

lemma scenario_score_data:
  "build_score_data cfg (PList (map PStr answers_scenario)) =
     Inr [(ascii ''q1'', 3), (ascii ''q2'', 4), (ascii ''q4'', 2), (ascii ''q5'', 1), (ascii ''q6'', 5),
          (ascii ''q7'', 2), (ascii ''q8'', 3), (ascii ''q9'', 4), (ascii ''q10'', 1)]"
  by (simp add: build_score_data_def answers_scenario_def ascii_def digit_tables py_int_def
      q_key_digits digits_of.simps)

subsection \<open>The console\<close>

lemma has_surrogate_append: "has_surrogate (a @ b) = (has_surrogate a \<or> has_surrogate b)"
  by (simp add: has_surrogate_def)

lemma prefixes_encodable:
  "\<not> has_surrogate MSG_SUPABASE_SAVED"
  "\<not> has_surrogate MSG_SUPABASE_ERROR"
  "\<not> has_surrogate MSG_RESULT_SAVED"
  "\<not> has_surrogate MSG_SAVE_ERROR"
  "\<not> has_surrogate MSG_ANALYSIS_START"
  "\<not> has_surrogate MSG_PROCESS_START"
  "\<not> has_surrogate MSG_PROCESS_DONE"
  "\<not> has_surrogate MSG_PROCESS_ERROR"
  by (simp_all add: has_surrogate_def ascii_def MSG_SUPABASE_SAVED_def MSG_SUPABASE_ERROR_def
      MSG_RESULT_SAVED_def MSG_SAVE_ERROR_def MSG_ANALYSIS_START_def MSG_PROCESS_START_def
      MSG_PROCESS_DONE_def MSG_PROCESS_ERROR_def)

lemma print_error:
  "\<not> has_surrogate prefix \<Longrightarrow> print (WithError prefix x) w = (Inr (), with_line (WithError prefix x) w)"
  by (simp add: print_def)

lemma print_plain:
  "\<not> has_surrogate prefix \<Longrightarrow>
     print (Plain (prefix @ t)) w =
       (if has_surrogate t then (Inl UnicodeEncodeError, w) else (Inr (), with_line (Plain (prefix @ t)) w))"
  by (simp add: print_def has_surrogate_append)

lemmas print_simps =
  print_error [OF prefixes_encodable(2)] print_error [OF prefixes_encodable(4)]
  print_error [OF prefixes_encodable(8)]
  print_plain [OF prefixes_encodable(1)] print_plain [OF prefixes_encodable(3)]
  print_plain [OF prefixes_encodable(5)] print_plain [OF prefixes_encodable(6)]
  print_plain [OF prefixes_encodable(7)]

subsection \<open>The cases of \<open>save_result\<close>\<close>

lemma save_result_returns: "fst (save_result cfg e uid ans g w) = Inr ()"
  by (simp add: save_result_def print_simps split: prod.splits sum.splits)

lemma save_result_pair: "save_result cfg e uid ans g w = (Inr (), snd (save_result cfg e uid ans g w))"
  using save_result_returns [of cfg e uid ans g w] by (simp add: prod_eq_iff)

lemma save_open_raises:
  assumes "local_io e = OpenRaises x"
  shows "save_result cfg e uid ans g w = (Inr (), with_line (WithError MSG_SAVE_ERROR x) w)"
  using assms by (simp add: save_result_def save_body_def local_step_def Let_def print_simps)

lemma save_write_raises:
  assumes "local_io e = WriteRaises n x"
  shows "save_result cfg e uid ans g w =
           (Inr (), with_line (WithError MSG_SAVE_ERROR x)
                      (file_append (take n (log_line uid ans g (now_saved e))) w))"
  using assms by (simp add: save_result_def save_body_def local_step_def Let_def print_simps)

lemma save_store_disabled:
  assumes "local_io e = Written" and "\<not> SUPABASE_ENABLED cfg"
  shows "save_result cfg e uid ans g w =
           (Inr (), with_line (if has_surrogate uid then WithError MSG_SAVE_ERROR UnicodeEncodeError
                               else Plain (MSG_RESULT_SAVED @ uid))
                      (file_append (log_line uid ans g (now_saved e)) w))"
  using assms
  by (simp add: save_result_def save_body_def remote_guarded_def local_step_def Let_def print_simps)

lemma save_score_raises:
  assumes "local_io e = Written" and "SUPABASE_ENABLED cfg" and "build_score_data cfg ans = Inl x"
  shows "save_result cfg e uid ans g w =
           (Inr (), with_line (if has_surrogate uid then WithError MSG_SAVE_ERROR UnicodeEncodeError
                               else Plain (MSG_RESULT_SAVED @ uid))
                      (with_line (WithError MSG_SUPABASE_ERROR x)
                         (file_append (log_line uid ans g (now_saved e)) w)))"
  using assms
  by (simp add: save_result_def save_body_def remote_guarded_def remote_step_def local_step_def
      Let_def print_simps)

lemma save_insert_raises:
  assumes "local_io e = Written" and "SUPABASE_ENABLED cfg" and "build_score_data cfg ans = Inr d"
    and "remote_io e = InsertRaises x"
  shows "save_result cfg e uid ans g w =
           (Inr (), with_line (if has_surrogate uid then WithError MSG_SAVE_ERROR UnicodeEncodeError
                               else Plain (MSG_RESULT_SAVED @ uid))
                      (with_line (WithError MSG_SUPABASE_ERROR x)
                         (insert_issued \<lparr>user_id = uid, score_summary = d,
                                          gpt_comment = json_dumps g, origin = ascii ''mindscape''\<rparr>
                            (file_append (log_line uid ans g (now_saved e)) w))))"
  using assms
  by (simp add: save_result_def save_body_def remote_guarded_def remote_step_def local_step_def
      Let_def print_simps)

lemma save_inserted:
  assumes "local_io e = Written" and "SUPABASE_ENABLED cfg" and "build_score_data cfg ans = Inr d"
    and "remote_io e = Inserted"
  shows "save_result cfg e uid ans g w =
           (Inr (), with_line (if has_surrogate uid then WithError MSG_SAVE_ERROR UnicodeEncodeError
                               else Plain (MSG_RESULT_SAVED @ uid))
                      (with_line (if has_surrogate uid then WithError MSG_SUPABASE_ERROR UnicodeEncodeError
                                  else Plain (MSG_SUPABASE_SAVED @ uid))
                         (row_stored \<lparr>user_id = uid, score_summary = d,
                                       gpt_comment = json_dumps g, origin = ascii ''mindscape''\<rparr>
                            (insert_issued \<lparr>user_id = uid, score_summary = d,
                                             gpt_comment = json_dumps g, origin = ascii ''mindscape''\<rparr>
                               (file_append (log_line uid ans g (now_saved e)) w)))))"
  using assms
  by (simp add: save_result_def save_body_def remote_guarded_def remote_step_def local_step_def
      Let_def print_simps)

lemmas world_ops = with_line_def file_append_def insert_issued_def row_stored_def emitted_def

subsection \<open>The orchestrator\<close>

lemma alert_reason_step:
  "(if length xs > 0 then map_sum id Some (index0 xs) else Inr None)
     = Inr (case xs of [] \<Rightarrow> None | x # _ \<Rightarrow> Some x)"
  by (cases xs) (simp_all add: index0_def)

lemma after_save:
  "fst (case save_result cfg e uid ans g w of
          (Inl x, w2) \<Rightarrow> (Inl x, w2)
        | (Inr u, w2) \<Rightarrow> (Inr r, f w2)) = Inr r"
  by (subst save_result_pair) simp

lemma process_body_unencodable:
  assumes "has_surrogate (name (AssessmentRequest.profile req))"
  shows "process_body analyze cfg e req w = (Inl UnicodeEncodeError, w)"
  using assms by (simp add: process_body_def Let_def print_simps)

lemma process_with_unencodable:
  assumes "has_surrogate (name (AssessmentRequest.profile req))"
  shows "process_assessment_with analyze cfg e req w =
           (Inl (HTTPException 500 (WithError MSG_PROCESS_FAILED UnicodeEncodeError)),
            with_line (WithError MSG_PROCESS_ERROR UnicodeEncodeError) w)"
  using assms by (simp add: process_assessment_with_def process_body_unencodable print_simps)

lemma process_body_result:
  assumes "\<not> has_surrogate (name (AssessmentRequest.profile req))"
    and "analyze (quiet_responses req) (AssessmentRequest.profile req)
             (with_line (Plain (MSG_PROCESS_START @ name (AssessmentRequest.profile req))) w) = (Inr qa, w1)"
  shows "fst (process_body analyze cfg e req w) =
           Inr \<lparr>profile = AssessmentRequest.profile req,
                quiet_analysis = qa,
                final_diagnosis = FINAL_DIAGNOSIS,
                alert = (length (alert_indicators qa) > 0),
                alert_reason = (case alert_indicators qa of [] \<Rightarrow> None | x # _ \<Rightarrow> Some x),
                image_prompt = ascii ''Beautiful landscape'',
                image_url = None,
                timestamp = now_result e\<rparr>"
  unfolding process_body_def Let_def print_simps if_not_P [OF assms(1)] prod.case sum.case assms(2)
  by (simp only: alert_reason_step sum.case prod.case after_save)

lemma process_body_raises:
  assumes "\<not> has_surrogate (name (AssessmentRequest.profile req))"
    and "analyze (quiet_responses req) (AssessmentRequest.profile req)
             (with_line (Plain (MSG_PROCESS_START @ name (AssessmentRequest.profile req))) w) = (Inl x, w1)"
  shows "process_body analyze cfg e req w = (Inl x, w1)"
  unfolding process_body_def Let_def print_simps if_not_P [OF assms(1)] prod.case sum.case assms(2)
  by simp

lemma process_with_result:
  assumes "\<not> has_surrogate (name (AssessmentRequest.profile req))"
    and "analyze (quiet_responses req) (AssessmentRequest.profile req)
             (with_line (Plain (MSG_PROCESS_START @ name (AssessmentRequest.profile req))) w) = (Inr qa, w1)"
  shows "fst (process_assessment_with analyze cfg e req w) =
           Inr \<lparr>profile = AssessmentRequest.profile req,
                quiet_analysis = qa,
                final_diagnosis = FINAL_DIAGNOSIS,
                alert = (length (alert_indicators qa) > 0),
                alert_reason = (case alert_indicators qa of [] \<Rightarrow> None | x # _ \<Rightarrow> Some x),
                image_prompt = ascii ''Beautiful landscape'',
                image_url = None,
                timestamp = now_result e\<rparr>"
proof -
  obtain w' where "process_body analyze cfg e req w =
           (Inr \<lparr>profile = AssessmentRequest.profile req,
                quiet_analysis = qa,
                final_diagnosis = FINAL_DIAGNOSIS,
                alert = (length (alert_indicators qa) > 0),
                alert_reason = (case alert_indicators qa of [] \<Rightarrow> None | x # _ \<Rightarrow> Some x),
                image_prompt = ascii ''Beautiful landscape'',
                image_url = None,
                timestamp = now_result e\<rparr>, w')"
    using process_body_result [where analyze = analyze and req = req and w = w and qa = qa
        and ?w1.0 = w1 and cfg = cfg and e = e] assms
    by (metis prod.collapse)
  then show ?thesis by (simp add: process_assessment_with_def)
qed

lemma process_with_raises:
  assumes "\<not> has_surrogate (name (AssessmentRequest.profile req))"
    and "analyze (quiet_responses req) (AssessmentRequest.profile req)
             (with_line (Plain (MSG_PROCESS_START @ name (AssessmentRequest.profile req))) w) = (Inl x, w1)"
  shows "process_assessment_with analyze cfg e req w =
           (Inl (HTTPException 500 (WithError MSG_PROCESS_FAILED x)),
            with_line (WithError MSG_PROCESS_ERROR x) w1)"
  using process_body_raises [where analyze = analyze and req = req and w = w and x = x
        and ?w1.0 = w1 and cfg = cfg and e = e] assms
  by (simp add: process_assessment_with_def print_simps)

lemma analyze_eq:
  "analyze_quiet_responses cfg qr p w =
     (if has_surrogate (name p) then (Inl UnicodeEncodeError, w)
      else (Inr (if \<not> OPENAI_ENABLED cfg then fallback_analysis qr p else openai_analysis),
            with_line (Plain (MSG_ANALYSIS_START @ name p)) w))"
  by (simp add: analyze_quiet_responses_def print_simps)

lemma process_assessment_result:
  "fst (process_assessment cfg e req w) =
     (if has_surrogate (name (AssessmentRequest.profile req))
      then Inl (HTTPException 500 (WithError MSG_PROCESS_FAILED UnicodeEncodeError))
      else Inr \<lparr>profile = AssessmentRequest.profile req,
                quiet_analysis = (if \<not> OPENAI_ENABLED cfg
                                  then fallback_analysis (quiet_responses req) (AssessmentRequest.profile req)
                                  else openai_analysis),
                final_diagnosis = FINAL_DIAGNOSIS,
                alert = False,
                alert_reason = None,
                image_prompt = ascii ''Beautiful landscape'',
                image_url = None,
                timestamp = now_result e\<rparr>)"
proof (cases "has_surrogate (name (AssessmentRequest.profile req))")
  case True
  then show ?thesis
    by (simp add: process_assessment_def process_with_unencodable)
next
  case False
  let ?p = "AssessmentRequest.profile req"
  let ?w0 = "with_line (Plain (MSG_PROCESS_START @ name ?p)) w"
  let ?qa = "if \<not> OPENAI_ENABLED cfg then fallback_analysis (quiet_responses req) ?p else openai_analysis"
  have a: "analyze_quiet_responses cfg (quiet_responses req) ?p ?w0
             = (Inr ?qa, with_line (Plain (MSG_ANALYSIS_START @ name ?p)) ?w0)"
    using False by (simp add: analyze_eq)
  have ind: "alert_indicators ?qa = []"
    by (simp add: fallback_analysis_def openai_analysis_def)
  show ?thesis
    unfolding process_assessment_def
    using process_with_result [where analyze = "analyze_quiet_responses cfg" and cfg = cfg and e = e, OF False a] False
    by (simp only: ind) simp
qed

lemma process_with_returned:
  assumes "fst (process_assessment_with analyze cfg e req w) = Inr r"
  shows "alert r = (length (alert_indicators (AssessmentResult.quiet_analysis r)) > 0)
         \<and> alert_reason r = (case alert_indicators (AssessmentResult.quiet_analysis r) of
                                [] \<Rightarrow> None | x # _ \<Rightarrow> Some x)"
proof (cases "has_surrogate (name (AssessmentRequest.profile req))")
  case True
  with assms show ?thesis by (simp add: process_with_unencodable)
next
  case False
  let ?p = "AssessmentRequest.profile req"
  let ?w0 = "with_line (Plain (MSG_PROCESS_START @ name ?p)) w"
  obtain out w1 where a: "analyze (quiet_responses req) ?p ?w0 = (out, w1)"
    by (cases "analyze (quiet_responses req) ?p ?w0")
  show ?thesis
  proof (cases out)
    case (Inl x)
    with a assms process_with_raises [where analyze = analyze and x = x and ?w1.0 = w1 and cfg = cfg and e = e, OF False]
    show ?thesis by simp
  next
    case (Inr qa)
    with a assms process_with_result [where analyze = analyze and qa = qa and ?w1.0 = w1 and cfg = cfg and e = e, OF False]
    show ?thesis by auto
  qed
qed

section \<open>The claims\<close>

text \<open>
  C1: every result that \<open>process_assessment\<close> returns has
  \<open>alert = (len(analysis.alert_indicators) > 0)\<close>, and its \<open>alert_reason\<close> is the
  first indicator when \<open>alert\<close> holds and \<open>None\<close> otherwise; it returns a result
  for every request whose profile name can be printed. The same holds of lines 219 to
  253 over any analysis step: whatever result they return satisfies the two
  equations, and when the step returns an analysis the result is built from it.
\<close>

theorem C1_alert_from_indicators:
  "(\<forall>res. fst (process_assessment cfg e req w) = Inr res \<longrightarrow>
        alert res = (length (alert_indicators (AssessmentResult.quiet_analysis res)) > 0)
        \<and> alert_reason res = (case alert_indicators (AssessmentResult.quiet_analysis res) of
                                 [] \<Rightarrow> None | x # _ \<Rightarrow> Some x)
        \<and> (alert res \<longrightarrow> alert_reason res \<noteq> None) \<and> (\<not> alert res \<longrightarrow> alert_reason res = None))
   \<and> (\<not> has_surrogate (name (AssessmentRequest.profile req)) \<longrightarrow>
        (\<exists>res. fst (process_assessment cfg e req w) = Inr res))
   \<and> (\<forall>res. fst (process_assessment_with analyze cfg e req w) = Inr res \<longrightarrow>
        alert res = (length (alert_indicators (AssessmentResult.quiet_analysis res)) > 0)
        \<and> alert_reason res = (case alert_indicators (AssessmentResult.quiet_analysis res) of
                                 [] \<Rightarrow> None | x # _ \<Rightarrow> Some x))
   \<and> (\<not> has_surrogate (name (AssessmentRequest.profile req))
        \<and> analyze (quiet_responses req) (AssessmentRequest.profile req)
            (with_line (Plain (MSG_PROCESS_START @ name (AssessmentRequest.profile req))) w) = (Inr qa, w1) \<longrightarrow>
       (\<exists>res. fst (process_assessment_with analyze cfg e req w) = Inr res
          \<and> AssessmentResult.quiet_analysis res = qa
          \<and> alert res = (length (alert_indicators qa) > 0)
          \<and> alert_reason res = (case alert_indicators qa of [] \<Rightarrow> None | x # _ \<Rightarrow> Some x)))"
proof (intro conjI impI allI)
  fix res
  assume a: "fst (process_assessment cfg e req w) = Inr res"
  then have r: "fst (process_assessment_with (analyze_quiet_responses cfg) cfg e req w) = Inr res"
    by (simp add: process_assessment_def)
  note eqs = process_with_returned [OF r]
  show "alert res = (length (alert_indicators (AssessmentResult.quiet_analysis res)) > 0)"
    using eqs by simp
  show "alert_reason res = (case alert_indicators (AssessmentResult.quiet_analysis res) of
                                 [] \<Rightarrow> None | x # _ \<Rightarrow> Some x)"
    using eqs by simp
  show "alert_reason res \<noteq> None" if "alert res"
    using eqs that by (cases "alert_indicators (AssessmentResult.quiet_analysis res)") simp_all
  show "alert_reason res = None" if "\<not> alert res"
    using eqs that by (cases "alert_indicators (AssessmentResult.quiet_analysis res)") simp_all
next
  assume "\<not> has_surrogate (name (AssessmentRequest.profile req))"
  then show "\<exists>res. fst (process_assessment cfg e req w) = Inr res"
    by (simp add: process_assessment_result)
next
  fix res
  assume r: "fst (process_assessment_with analyze cfg e req w) = Inr res"
  note eqs = process_with_returned [OF r]
  show "alert res = (length (alert_indicators (AssessmentResult.quiet_analysis res)) > 0)"
    using eqs by simp
  show "alert_reason res = (case alert_indicators (AssessmentResult.quiet_analysis res) of
                                 [] \<Rightarrow> None | x # _ \<Rightarrow> Some x)"
    using eqs by simp
next
  assume a: "\<not> has_surrogate (name (AssessmentRequest.profile req))
        \<and> analyze (quiet_responses req) (AssessmentRequest.profile req)
            (with_line (Plain (MSG_PROCESS_START @ name (AssessmentRequest.profile req))) w) = (Inr qa, w1)"
  show "\<exists>res. fst (process_assessment_with analyze cfg e req w) = Inr res
          \<and> AssessmentResult.quiet_analysis res = qa
          \<and> alert res = (length (alert_indicators qa) > 0)
          \<and> alert_reason res = (case alert_indicators qa of [] \<Rightarrow> None | x # _ \<Rightarrow> Some x)"
    using process_with_result [where analyze = analyze and req = req and w = w and qa = qa
        and ?w1.0 = w1 and cfg = cfg and e = e] a
    by simp
qed

theorem C1_alert_from_indicators_witness:
  "(\<exists>res. fst (process_assessment cfg_off env_ok request0 world0) = Inr res
        \<and> alert res = False \<and> alert_reason res = None)
   \<and> (\<exists>res. fst (process_assessment_with risky_analyzer cfg_off env_ok request0 world0) = Inr res
        \<and> alert res = True \<and> alert_reason res = Some (ascii ''insomnia''))"
proof -
  let ?w = "with_line (Plain (MSG_PROCESS_START @ name (AssessmentRequest.profile request0))) world0"
  let ?qa = "openai_analysis\<lparr>alert_indicators := [ascii ''insomnia'', ascii ''isolation'']\<rparr>"
  have n: "\<not> has_surrogate (name (AssessmentRequest.profile request0))"
    by (simp add: request0_def profile0_def has_surrogate_def ascii_def)
  have h: "risky_analyzer (quiet_responses request0) (AssessmentRequest.profile request0) ?w = (Inr ?qa, ?w)"
    by (simp add: risky_analyzer_def)
  note c1 = C1_alert_from_indicators [where cfg = cfg_off and e = env_ok and req = request0
      and w = world0 and analyze = risky_analyzer and qa = ?qa and ?w1.0 = ?w]
  from c1 n obtain res where res: "fst (process_assessment cfg_off env_ok request0 world0) = Inr res"
    by blast
  have ind: "alert_indicators (AssessmentResult.quiet_analysis res) = []"
    using res n by (auto simp: process_assessment_result fallback_analysis_def openai_analysis_def)
  from c1 res have "alert res = (length (alert_indicators (AssessmentResult.quiet_analysis res)) > 0)"
    "alert_reason res = (case alert_indicators (AssessmentResult.quiet_analysis res) of
                                 [] \<Rightarrow> None | x # _ \<Rightarrow> Some x)"
    by blast+
  with ind res have first: "\<exists>res. fst (process_assessment cfg_off env_ok request0 world0) = Inr res
        \<and> alert res = False \<and> alert_reason res = None"
    by simp
  from c1 n h
  have "\<exists>res. fst (process_assessment_with risky_analyzer cfg_off env_ok request0 world0) = Inr res
          \<and> AssessmentResult.quiet_analysis res = ?qa
          \<and> alert res = (length (alert_indicators ?qa) > 0)
          \<and> alert_reason res = (case alert_indicators ?qa of [] \<Rightarrow> None | x # _ \<Rightarrow> Some x)"
    by blast
  then have "\<exists>res. fst (process_assessment_with risky_analyzer cfg_off env_ok request0 world0) = Inr res
        \<and> alert res = True \<and> alert_reason res = Some (ascii ''insomnia'')"
    by (auto simp: openai_analysis_def)
  with first show ?thesis by blast
qed

text \<open>
  C2: whatever the dispatcher returns is one of two fixed results, chosen by
  \<open>OPENAI_ENABLED\<close> alone, and it returns it for every profile whose name can be
  printed; the fallback depends on its arguments only through the department in its
  overview; both have no alert indicators; so every result that
  \<open>process_assessment\<close> returns has \<open>alert = False\<close> and \<open>alert_reason = None\<close>.
\<close>

theorem C2_dispatcher_two_constants:
  "(\<forall>qa w1. analyze_quiet_responses cfg qr p w = (Inr qa, w1) \<longrightarrow>
        qa = (if OPENAI_ENABLED cfg then openai_analysis else fallback_analysis qr p))
   \<and> (\<not> has_surrogate (name p) \<longrightarrow>
        fst (analyze_quiet_responses cfg qr p w)
          = Inr (if OPENAI_ENABLED cfg then openai_analysis else fallback_analysis qr p))
   \<and> fallback_analysis qr p = (fallback_analysis qr' p')\<lparr>overview := department p @ FALLBACK_OVERVIEW_SUFFIX\<rparr>
   \<and> alert_indicators openai_analysis = []
   \<and> alert_indicators (fallback_analysis qr p) = []
   \<and> (\<forall>res. fst (process_assessment cfg e req w) = Inr res \<longrightarrow>
        alert res = False \<and> alert_reason res = None)
   \<and> (\<not> has_surrogate (name (AssessmentRequest.profile req)) \<longrightarrow>
        (\<exists>res. fst (process_assessment cfg e req w) = Inr res))"
proof (intro conjI impI allI)
  fix qa w1
  assume "analyze_quiet_responses cfg qr p w = (Inr qa, w1)"
  then show "qa = (if OPENAI_ENABLED cfg then openai_analysis else fallback_analysis qr p)"
    by (auto simp: analyze_eq split: if_splits)
next
  assume "\<not> has_surrogate (name p)"
  then show "fst (analyze_quiet_responses cfg qr p w)
          = Inr (if OPENAI_ENABLED cfg then openai_analysis else fallback_analysis qr p)"
    by (simp add: analyze_eq)
next
  show "fallback_analysis qr p = (fallback_analysis qr' p')\<lparr>overview := department p @ FALLBACK_OVERVIEW_SUFFIX\<rparr>"
    by (simp add: fallback_analysis_def)
  show "alert_indicators openai_analysis = []"
    by (simp add: openai_analysis_def)
  show "alert_indicators (fallback_analysis qr p) = []"
    by (simp add: fallback_analysis_def)
next
  fix res
  assume "fst (process_assessment cfg e req w) = Inr res"
  then have "res = \<lparr>profile = AssessmentRequest.profile req,
                quiet_analysis = (if \<not> OPENAI_ENABLED cfg
                                  then fallback_analysis (quiet_responses req) (AssessmentRequest.profile req)
                                  else openai_analysis),
                final_diagnosis = FINAL_DIAGNOSIS,
                alert = False,
                alert_reason = None,
                image_prompt = ascii ''Beautiful landscape'',
                image_url = None,
                timestamp = now_result e\<rparr>"
    by (simp add: process_assessment_result split: if_splits)
  then show "alert res = False" "alert_reason res = None"
    by simp_all
next
  assume "\<not> has_surrogate (name (AssessmentRequest.profile req))"
  then show "\<exists>res. fst (process_assessment cfg e req w) = Inr res"
    by (simp add: process_assessment_result)
qed

theorem C2_dispatcher_two_constants_witness:
  "fst (analyze_quiet_responses cfg_on [ascii ''tired''] profile0 world0) = Inr openai_analysis
   \<and> fst (analyze_quiet_responses cfg_off [ascii ''tired''] profile0 world0)
       = Inr (fallback_analysis [] (profile0\<lparr>name := []\<rparr>))
   \<and> (\<exists>res. fst (process_assessment cfg_on env_ok request0 world0) = Inr res
         \<and> alert res = False \<and> alert_reason res = None)"
proof -
  have n: "\<not> has_surrogate (name profile0)" "\<not> has_surrogate (name (AssessmentRequest.profile request0))"
    by (simp_all add: request0_def profile0_def has_surrogate_def ascii_def)
  note on = C2_dispatcher_two_constants [where cfg = cfg_on and qr = "[ascii ''tired'']" and p = profile0
      and w = world0 and qr' = "[]" and p' = profile0 and e = env_ok and req = request0]
  note off = C2_dispatcher_two_constants [where cfg = cfg_off and qr = "[ascii ''tired'']" and p = profile0
      and w = world0 and qr' = "[]" and p' = "profile0\<lparr>name := []\<rparr>" and e = env_ok and req = request0]
  have a: "fst (analyze_quiet_responses cfg_on [ascii ''tired''] profile0 world0) = Inr openai_analysis"
    using on n by (simp add: cfg_on_def)
  have b: "fst (analyze_quiet_responses cfg_off [ascii ''tired''] profile0 world0)
       = Inr (fallback_analysis [] (profile0\<lparr>name := []\<rparr>))"
    using off n by (simp add: cfg_off_def fallback_analysis_def)
  from on n obtain res where res: "fst (process_assessment cfg_on env_ok request0 world0) = Inr res"
    by blast
  with on have "alert res = False \<and> alert_reason res = None"
    by blast
  with res a b show ?thesis by blast
qed




text \<open>
  C4, as the claim states it, fails: in the one-entry list \<open>["3"]\<close> the first entry
  is a digit string that \<open>int\<close> reads as 3, and the score summary is empty.
\<close>

theorem C4_counterexample:
  "answers_short = PList [PStr (ascii ''3'')]
   \<and> py_isdigit (ascii ''3'')
   \<and> py_int (int_max_str_digits cfg_on) (ascii ''3'') = Inr 3
   \<and> build_score_data cfg_on answers_short = Inr []"
  by (simp add: answers_short_def build_score_data_def cfg_on_def ascii_def digit_tables py_int_def)

text \<open>
  C4, amended: for a list of at least ten answers in which \<open>int\<close> reads every
  string of digits among the first ten, the score summary is built from the first
  ten. It has at most ten keys, all among \<open>"q1"\<close> to \<open>"q10"\<close> and no key twice; an
  entry that is a non-empty string of digits (\<open>str.isdigit\<close>) is read by \<open>int\<close> as
  a non-negative integer and recorded under the key of its position, counted from 1;
  every other entry is skipped, without error. When the local write has succeeded and
  the store is enabled, it is the \<open>score_summary\<close> of the row whose insert is issued.
\<close>

theorem C4_score_summary_of_ten:
  assumes "10 \<le> length xs"
    and "\<forall>i<10. py_isdigit (xs ! i) \<longrightarrow> (\<exists>v. py_int (int_max_str_digits cfg) (xs ! i) = Inr v)"
  shows "(\<exists>d. build_score_data cfg (PList (map PStr xs)) = Inr d
            \<and> length d \<le> 10 \<and> distinct (map fst d) \<and> fst ` set d \<subseteq> set (map q_key [0..<10])
            \<and> (\<forall>i<10. if py_isdigit (xs ! i)
                       then \<exists>v. py_int (int_max_str_digits cfg) (xs ! i) = Inr v \<and> 0 \<le> v
                                \<and> map_of d (q_key i) = Some v
                       else map_of d (q_key i) = None)
            \<and> (local_io e = Written \<and> SUPABASE_ENABLED cfg \<longrightarrow>
                  InsertIssued \<lparr>user_id = uid, score_summary = d,
                                 gpt_comment = json_dumps g, origin = ascii ''mindscape''\<rparr>
                    \<in> set (emitted w (snd (save_result cfg e uid (PList (map PStr xs)) g w)))))
         \<and> map q_key [0..<10] =
             [ascii ''q1'', ascii ''q2'', ascii ''q3'', ascii ''q4'', ascii ''q5'',
              ascii ''q6'', ascii ''q7'', ascii ''q8'', ascii ''q9'', ascii ''q10'']"
proof -
  let ?lim = "int_max_str_digits cfg"
  let ?ss = "take 10 xs"
  let ?ans = "PList (map PStr xs)"
  have len: "length ?ss = 10"
    using assms(1) by simp
  have build: "build_score_data cfg ?ans = score_loop ?lim 0 (map PStr ?ss) []"
    using assms(1) by (simp add: build_score_data_def take_map)
  have nth: "?ss ! i = xs ! i" if "i < 10" for i
    using that by simp
  have "\<exists>d. build_score_data cfg ?ans = Inr d
            \<and> length d \<le> 10 \<and> distinct (map fst d) \<and> fst ` set d \<subseteq> set (map q_key [0..<10])
            \<and> (\<forall>i<10. if py_isdigit (xs ! i)
                       then \<exists>v. py_int ?lim (xs ! i) = Inr v \<and> 0 \<le> v \<and> map_of d (q_key i) = Some v
                       else map_of d (q_key i) = None)
            \<and> (local_io e = Written \<and> SUPABASE_ENABLED cfg \<longrightarrow>
                  InsertIssued \<lparr>user_id = uid, score_summary = d,
                                 gpt_comment = json_dumps g, origin = ascii ''mindscape''\<rparr>
                    \<in> set (emitted w (snd (save_result cfg e uid ?ans g w))))"
  proof (cases "build_score_data cfg ?ans")
    case (Inl x)
    then have run: "score_loop ?lim 0 (map PStr ?ss) [] = Inl x"
      using build by simp
    from score_loop_raises [OF run] obtain j where
      j: "j < length ?ss" "py_isdigit (?ss ! j)" "py_int ?lim (?ss ! j) = Inl ValueError"
      by blast
    from j(1) len have j10: "j < 10" by simp
    with j nth [OF j10] have "py_isdigit (xs ! j)" "py_int ?lim (xs ! j) = Inl ValueError"
      by auto
    with assms(2) j10 show ?thesis by auto
  next
    case (Inr d)
    then have run: "score_loop ?lim 0 (map PStr ?ss) [] = Inr d"
      using build by simp
    note inv = score_loop_returns [OF run]
    have l: "length d \<le> 10" using inv len by simp
    have dist: "distinct (map fst d)" using inv by simp
    have "q_key ` {0..<0 + length ?ss} = set (map q_key [0..<10])"
      using len by simp
    with inv have keys: "fst ` set d \<subseteq> set (map q_key [0..<10])"
      by simp
    have each: "\<forall>i<10. if py_isdigit (xs ! i)
                         then \<exists>v. py_int ?lim (xs ! i) = Inr v \<and> 0 \<le> v \<and> map_of d (q_key i) = Some v
                         else map_of d (q_key i) = None"
    proof (intro allI impI)
      fix i :: nat assume i: "i < 10"
      have ilen: "i < length ?ss"
        using i by (simp only: len)
      from inv [THEN conjunct1, rule_format, OF ilen]
      have step: "if py_isdigit (xs ! i)
            then \<exists>v. py_int ?lim (xs ! i) = Inr v \<and> map_of d (q_key i) = Some v
            else map_of d (q_key i) = None"
        by (simp only: nth [OF i] add_0 map_of.simps)
      show "if py_isdigit (xs ! i)
              then \<exists>v. py_int ?lim (xs ! i) = Inr v \<and> 0 \<le> v \<and> map_of d (q_key i) = Some v
              else map_of d (q_key i) = None"
      proof (cases "py_isdigit (xs ! i)")
        case True
        with step obtain v where "py_int ?lim (xs ! i) = Inr v" "map_of d (q_key i) = Some v"
          by auto
        with py_int_nonneg [of ?lim "xs ! i" v] True show ?thesis by simp
      next
        case False
        with step show ?thesis by simp
      qed
    qed
    have "InsertIssued \<lparr>user_id = uid, score_summary = d,
                         gpt_comment = json_dumps g, origin = ascii ''mindscape''\<rparr>
            \<in> set (emitted w (snd (save_result cfg e uid ?ans g w)))"
      if "local_io e = Written" "SUPABASE_ENABLED cfg"
      using that Inr by (cases "remote_io e") (simp_all add: save_inserted save_insert_raises world_ops)
    with Inr l dist keys each show ?thesis by simp
  qed
  then show ?thesis
    using q_keys_ten by simp
qed

theorem C4_score_summary_of_ten_witness:
  "10 \<le> length answers_scenario
   \<and> build_score_data cfg_on (PList (map PStr answers_scenario)) =
       Inr [(ascii ''q1'', 3), (ascii ''q2'', 4), (ascii ''q4'', 2), (ascii ''q5'', 1), (ascii ''q6'', 5),
            (ascii ''q7'', 2), (ascii ''q8'', 3), (ascii ''q9'', 4), (ascii ''q10'', 1)]
   \<and> InsertIssued \<lparr>user_id = ascii ''Aoi'',
                     score_summary =
                       [(ascii ''q1'', 3), (ascii ''q2'', 4), (ascii ''q4'', 2), (ascii ''q5'', 1),
                        (ascii ''q6'', 5), (ascii ''q7'', 2), (ascii ''q8'', 3), (ascii ''q9'', 4),
                        (ascii ''q10'', 1)],
                     gpt_comment = json_dumps PNone, origin = ascii ''mindscape''\<rparr>
        \<in> set (emitted world0 (snd (save_result cfg_on env_ok (ascii ''Aoi'')
                                      (PList (map PStr answers_scenario)) PNone world0)))"
proof -
  have l: "10 \<le> length answers_scenario"
    by (simp add: answers_scenario_def)
  have "\<forall>s\<in>set answers_scenario. py_isdigit s \<longrightarrow> (\<exists>v. py_int 4300 s = Inr v)"
    by (simp add: answers_scenario_def ascii_def digit_tables py_int_def)
  moreover have "int_max_str_digits cfg_on = 4300"
    by (simp add: cfg_on_def)
  ultimately have h: "\<forall>i<10. py_isdigit (answers_scenario ! i) \<longrightarrow>
      (\<exists>v. py_int (int_max_str_digits cfg_on) (answers_scenario ! i) = Inr v)"
    using l by (metis nth_mem less_le_trans)
  have c: "local_io env_ok = Written \<and> SUPABASE_ENABLED cfg_on"
    by (simp add: env_ok_def cfg_on_def)
  show ?thesis
    using l c
      C4_score_summary_of_ten [OF l h, where e = env_ok and uid = "ascii ''Aoi''"
          and g = PNone and w = world0]
    by (simp add: scenario_score_data)
qed

text \<open>
  C5, as the claim states it, fails: with the store enabled and ready to accept the
  row, a failure of the local write ends the call; the only effect is the line
  printed by the outer handler, no insert is issued and the table is unchanged.
\<close>

theorem C5_counterexample:
  "SUPABASE_ENABLED cfg_on \<and> remote_io env_disk_full = Inserted
   \<and> emitted world0 (snd (save_result cfg_on env_disk_full (ascii ''Aoi'') answers_short PNone world0))
        = [Printed (WithError MSG_SAVE_ERROR (Raised (ascii ''disk full'')))]
   \<and> diagnostic_results (snd (save_result cfg_on env_disk_full (ascii ''Aoi'') answers_short PNone world0)) = []"
proof -
  have "local_io env_disk_full = OpenRaises (Raised (ascii ''disk full''))"
    by (simp add: env_disk_full_def)
  then show ?thesis
    by (simp add: save_open_raises world_ops world0_def cfg_on_def env_disk_full_def env_ok_def)
qed

text \<open>
  C5, amended: in \<open>save_result\<close> the local append comes first and the remote step
  follows only when it has succeeded. A failure of the local write is printed and
  ends the call: no insert is issued and the table is unchanged. When the local write
  succeeds the file holds the new line whatever the remote step does, and a failure of
  the insert is printed. Every insert that is issued comes right after the append of
  the full line of the same call, and a row is stored only by an insert that was
  issued.
\<close>

theorem C5_local_first_then_remote:
  "(let w' = snd (save_result cfg e uid ans g w);
        line = log_line uid ans g (now_saved e)
    in (local_io e \<noteq> Written \<longrightarrow>
          (\<forall>row. InsertIssued row \<notin> set (emitted w w'))
          \<and> diagnostic_results w' = diagnostic_results w
          \<and> (\<exists>x. Printed (WithError MSG_SAVE_ERROR x) \<in> set (emitted w w')))
     \<and> (local_io e = Written \<longrightarrow> results_file w' = results_file w @ line)
     \<and> (local_io e = Written \<and> SUPABASE_ENABLED cfg \<and> build_score_data cfg ans = Inr d
          \<and> remote_io e = InsertRaises y \<longrightarrow>
          Printed (WithError MSG_SUPABASE_ERROR y) \<in> set (emitted w w'))
     \<and> (\<forall>row. InsertIssued row \<in> set (emitted w w') \<longrightarrow>
          (\<exists>rest. emitted w w' = FileAppended line # InsertIssued row # rest))
     \<and> (diagnostic_results w' = diagnostic_results w
          \<or> (\<exists>row. diagnostic_results w' = diagnostic_results w @ [row]
                \<and> InsertIssued row \<in> set (emitted w w'))))"
proof (cases "local_io e")
  case (OpenRaises x)
  then show ?thesis by (simp add: Let_def save_open_raises world_ops)
next
  case (WriteRaises n x)
  then show ?thesis by (simp add: Let_def save_write_raises world_ops)
next
  case Written
  show ?thesis
  proof (cases "SUPABASE_ENABLED cfg")
    case False
    with Written show ?thesis by (simp add: Let_def save_store_disabled world_ops)
  next
    case True
    show ?thesis
    proof (cases "build_score_data cfg ans")
      case (Inl x)
      with Written True show ?thesis by (simp add: Let_def save_score_raises world_ops)
    next
      case (Inr d)
      show ?thesis
      proof (cases "remote_io e")
        case Inserted
        with Written True Inr show ?thesis by (simp add: Let_def save_inserted world_ops)
      next
        case (InsertRaises x)
        with Written True Inr show ?thesis by (simp add: Let_def save_insert_raises world_ops)
      qed
    qed
  qed
qed

theorem C5_local_first_then_remote_witness:
  "local_io env_disk_full \<noteq> Written
   \<and> (\<forall>row. InsertIssued row \<notin> set (emitted world0
          (snd (save_result cfg_on env_disk_full (ascii ''Aoi'') answers_short PNone world0))))
   \<and> local_io env_store_down = Written
   \<and> Printed (WithError MSG_SUPABASE_ERROR (Raised (ascii ''store down'')))
        \<in> set (emitted world0 (snd (save_result cfg_on env_store_down (ascii ''Aoi'') answers_short PNone world0)))
   \<and> results_file (snd (save_result cfg_on env_store_down (ascii ''Aoi'') answers_short PNone world0))
        = log_line (ascii ''Aoi'') answers_short PNone (ascii ''2025-01-01T00:00:01'')
   \<and> InsertIssued \<lparr>user_id = ascii ''Aoi'', score_summary = [],
                     gpt_comment = json_dumps PNone, origin = ascii ''mindscape''\<rparr>
        \<in> set (emitted world0 (snd (save_result cfg_on env_store_down (ascii ''Aoi'') answers_short PNone world0)))
   \<and> (\<exists>rest. emitted world0 (snd (save_result cfg_on env_store_down (ascii ''Aoi'') answers_short PNone world0))
         = FileAppended (log_line (ascii ''Aoi'') answers_short PNone (ascii ''2025-01-01T00:00:01''))
           # InsertIssued \<lparr>user_id = ascii ''Aoi'', score_summary = [],
                     gpt_comment = json_dumps PNone, origin = ascii ''mindscape''\<rparr> # rest)"
proof -
  have l: "local_io env_disk_full \<noteq> Written" "local_io env_store_down = Written"
    "now_saved env_store_down = ascii ''2025-01-01T00:00:01''"
    "remote_io env_store_down = InsertRaises (Raised (ascii ''store down''))"
    by (simp_all add: env_disk_full_def env_store_down_def env_ok_def)
  have s: "SUPABASE_ENABLED cfg_on" "build_score_data cfg_on answers_short = Inr []"
    by (simp_all add: cfg_on_def build_score_data_def answers_short_def)
  have i: "InsertIssued \<lparr>user_id = ascii ''Aoi'', score_summary = [],
                     gpt_comment = json_dumps PNone, origin = ascii ''mindscape''\<rparr>
        \<in> set (emitted world0 (snd (save_result cfg_on env_store_down (ascii ''Aoi'') answers_short PNone world0)))"
    using l s by (simp add: save_insert_raises world_ops world0_def)
  show ?thesis
    using l s i
      C5_local_first_then_remote [where cfg = cfg_on and e = env_disk_full and uid = "ascii ''Aoi''"
          and ans = answers_short and g = PNone and w = world0 and d = "[]"
          and y = "Raised (ascii ''store down'')"]
      C5_local_first_then_remote [where cfg = cfg_on and e = env_store_down and uid = "ascii ''Aoi''"
          and ans = answers_short and g = PNone and w = world0 and d = "[]"
          and y = "Raised (ascii ''store down'')"]
    by (simp add: Let_def world0_def)
qed

text \<open>
  C6: \<open>save_result\<close> returns normally for every input and every outcome of the file
  write and of the insert; a failure of the local step is printed by the outer
  handler and a failure of the remote step by the inner handler. What
  \<open>process_assessment\<close> answers does not depend on what the sinks do, and it is a
  result whenever the name of the profile can be printed.
\<close>

theorem C6_save_never_raises:
  "fst (save_result cfg e uid ans g w) = Inr ()
   \<and> (local_io e = OpenRaises x \<or> local_io e = WriteRaises n x \<longrightarrow>
        Printed (WithError MSG_SAVE_ERROR x) \<in> set (emitted w (snd (save_result cfg e uid ans g w))))
   \<and> (local_io e = Written \<and> SUPABASE_ENABLED cfg
        \<and> (build_score_data cfg ans = Inl x
            \<or> (build_score_data cfg ans = Inr d \<and> remote_io e = InsertRaises x)) \<longrightarrow>
        Printed (WithError MSG_SUPABASE_ERROR x) \<in> set (emitted w (snd (save_result cfg e uid ans g w))))
   \<and> fst (process_assessment cfg (e\<lparr>local_io := l, remote_io := r\<rparr>) req w)
        = fst (process_assessment cfg e req w)
   \<and> (\<not> has_surrogate (name (AssessmentRequest.profile req)) \<longrightarrow>
        (\<exists>res. fst (process_assessment cfg e req w) = Inr res))"
proof (intro conjI impI)
  show "fst (save_result cfg e uid ans g w) = Inr ()"
    by (rule save_result_returns)
  show "fst (process_assessment cfg (e\<lparr>local_io := l, remote_io := r\<rparr>) req w)
        = fst (process_assessment cfg e req w)"
    by (simp add: process_assessment_result)
next
  assume "\<not> has_surrogate (name (AssessmentRequest.profile req))"
  then show "\<exists>res. fst (process_assessment cfg e req w) = Inr res"
    by (simp add: process_assessment_result)
next
  assume "local_io e = OpenRaises x \<or> local_io e = WriteRaises n x"
  then show "Printed (WithError MSG_SAVE_ERROR x) \<in> set (emitted w (snd (save_result cfg e uid ans g w)))"
    by (auto simp: save_open_raises save_write_raises world_ops)
next
  assume a: "local_io e = Written \<and> SUPABASE_ENABLED cfg
        \<and> (build_score_data cfg ans = Inl x
            \<or> (build_score_data cfg ans = Inr d \<and> remote_io e = InsertRaises x))"
  then show "Printed (WithError MSG_SUPABASE_ERROR x) \<in> set (emitted w (snd (save_result cfg e uid ans g w)))"
    by (auto simp: save_score_raises save_insert_raises world_ops)
qed

theorem C6_save_never_raises_witness:
  "fst (save_result cfg_on env_disk_full (ascii ''Aoi'') answers_short PNone world0) = Inr ()
   \<and> Printed (WithError MSG_SAVE_ERROR (Raised (ascii ''disk full'')))
        \<in> set (emitted world0 (snd (save_result cfg_on env_disk_full (ascii ''Aoi'') answers_short PNone world0)))
   \<and> Printed (WithError MSG_SUPABASE_ERROR (Raised (ascii ''store down'')))
        \<in> set (emitted world0 (snd (save_result cfg_on env_store_down (ascii ''Aoi'') answers_short PNone world0)))
   \<and> fst (process_assessment cfg_on env_disk_full request0 world0)
        = fst (process_assessment cfg_on env_ok request0 world0)
   \<and> (\<exists>r. fst (process_assessment cfg_on env_disk_full request0 world0) = Inr r)"
proof -
  have l: "local_io env_disk_full = OpenRaises (Raised (ascii ''disk full''))"
    by (simp add: env_disk_full_def)
  have r: "local_io env_store_down = Written \<and> SUPABASE_ENABLED cfg_on
        \<and> (build_score_data cfg_on answers_short = Inl (Raised (ascii ''store down''))
            \<or> (build_score_data cfg_on answers_short = Inr []
                \<and> remote_io env_store_down = InsertRaises (Raised (ascii ''store down''))))"
    by (simp add: env_store_down_def env_ok_def cfg_on_def build_score_data_def answers_short_def)
  have n: "\<not> has_surrogate (name (AssessmentRequest.profile request0))"
    by (simp add: request0_def profile0_def has_surrogate_def ascii_def)
  have e: "env_ok\<lparr>local_io := OpenRaises (Raised (ascii ''disk full'')), remote_io := Inserted\<rparr> = env_disk_full"
    by (simp add: env_disk_full_def env_ok_def)
  show ?thesis
    using l r n
      C6_save_never_raises [where cfg = cfg_on and e = env_disk_full and uid = "ascii ''Aoi''"
          and ans = answers_short and g = PNone and w = world0
          and x = "Raised (ascii ''disk full'')" and n = 0 and d = "[]" and req = request0
          and l = "OpenRaises (Raised (ascii ''disk full''))" and r = Inserted]
      C6_save_never_raises [where cfg = cfg_on and e = env_store_down and uid = "ascii ''Aoi''"
          and ans = answers_short and g = PNone and w = world0
          and x = "Raised (ascii ''store down'')" and n = 0 and d = "[]" and req = request0
          and l = Written and r = Inserted]
      C6_save_never_raises [where cfg = cfg_on and e = env_ok and uid = "ascii ''Aoi''"
          and ans = answers_short and g = PNone and w = world0
          and x = "Raised (ascii ''disk full'')" and n = 0 and d = "[]" and req = request0
          and l = "OpenRaises (Raised (ascii ''disk full''))" and r = Inserted]
    by (simp add: e)
qed

text \<open>
  C7: with the remote analysis switched off, the dispatcher returns the fallback
  result for every profile whose name can be printed, and a request with such a name
  and the quiet responses \<open>["I feel fine", "stable"]\<close> is answered with
  \<open>diagnostic_tags = ["stable_state"]\<close>, \<open>alert = False\<close> and
  \<open>alert_reason = None\<close>. On a name that holds a lone surrogate the \<open>print\<close> of line
  189 raises \<open>UnicodeEncodeError\<close>: the dispatcher raises instead of returning the
  fallback, and the endpoint, where line 220 prints the same name, answers with status
  500.
\<close>

theorem C7_disabled_fallback_unless_print_raises:
  assumes "\<not> OPENAI_ENABLED cfg"
  shows "fst (analyze_quiet_responses cfg qr p w)
           = (if has_surrogate (name p) then Inl UnicodeEncodeError else Inr (fallback_analysis qr p))
         \<and> (quiet_responses req = [ascii ''I feel fine'', ascii ''stable''] \<longrightarrow>
              (if has_surrogate (name (AssessmentRequest.profile req))
               then fst (process_assessment cfg e req w)
                      = Inl (HTTPException 500 (WithError MSG_PROCESS_FAILED UnicodeEncodeError))
               else (\<exists>res. fst (process_assessment cfg e req w) = Inr res
                      \<and> diagnostic_tags (AssessmentResult.quiet_analysis res) = [ascii ''stable_state'']
                      \<and> alert res = False \<and> alert_reason res = None)))"
  using assms by (simp add: analyze_eq process_assessment_result fallback_analysis_def)

theorem C7_disabled_fallback_unless_print_raises_witness:
  "\<not> OPENAI_ENABLED cfg_off
   \<and> quiet_responses request_surrogate = [ascii ''I feel fine'', ascii ''stable'']
   \<and> name (AssessmentRequest.profile request_surrogate) = [55296]
   \<and> fst (analyze_quiet_responses cfg_off (quiet_responses request_surrogate)
            (AssessmentRequest.profile request_surrogate) world0) = Inl UnicodeEncodeError
   \<and> fst (process_assessment cfg_off env_ok request_surrogate world0)
       = Inl (HTTPException 500 (WithError MSG_PROCESS_FAILED UnicodeEncodeError))
   \<and> fst (analyze_quiet_responses cfg_off (quiet_responses request0) profile0 world0)
        = Inr (fallback_analysis (quiet_responses request0) profile0)
   \<and> (\<exists>res. fst (process_assessment cfg_off env_ok request0 world0) = Inr res
           \<and> diagnostic_tags (AssessmentResult.quiet_analysis res) = [ascii ''stable_state'']
           \<and> alert res = False \<and> alert_reason res = None)"
proof -
  have off: "\<not> OPENAI_ENABLED cfg_off" by (simp add: cfg_off_def)
  have qr: "quiet_responses request_surrogate = [ascii ''I feel fine'', ascii ''stable'']"
    "quiet_responses request0 = [ascii ''I feel fine'', ascii ''stable'']"
    by (simp_all add: request_surrogate_def request0_def)
  have n: "has_surrogate (name (AssessmentRequest.profile request_surrogate))"
    "name (AssessmentRequest.profile request_surrogate) = [55296]"
    "\<not> has_surrogate (name (AssessmentRequest.profile request0))"
    "\<not> has_surrogate (name profile0)"
    by (simp_all add: request_surrogate_def profile_surrogate_def request0_def profile0_def
        has_surrogate_def ascii_def)
  show ?thesis
    using off qr n
      C7_disabled_fallback_unless_print_raises [OF off, where qr = "quiet_responses request_surrogate"
          and p = "AssessmentRequest.profile request_surrogate" and w = world0
          and req = request_surrogate and e = env_ok]
      C7_disabled_fallback_unless_print_raises [OF off, where qr = "quiet_responses request0"
          and p = profile0 and w = world0 and req = request0 and e = env_ok]
    by simp
qed

text \<open>
  C8: a call of \<open>save_result\<close> whose local append succeeds leaves \<open>results.json\<close> as
  it was, followed by the JSON text of \<open>{id, answers, result, timestamp}\<close> and one
  line feed; the JSON text holds no line feed, so the file has grown by exactly one
  line, whether the remote step succeeds, fails or is skipped. Whatever happens, the
  old content of the file stays in front: nothing is overwritten or truncated.
\<close>

theorem C8_local_log_grows_one_line:
  "(local_io e = Written \<longrightarrow>
      results_file (snd (save_result cfg e uid ans g w))
        = results_file w
          @ json_dumps (PDict [(ascii ''id'', PStr uid),
                               (ascii ''answers'', ans),
                               (ascii ''result'', g),
                               (ascii ''timestamp'', PStr (now_saved e))])
          @ [10]
      \<and> 10 \<notin> set (json_dumps (PDict [(ascii ''id'', PStr uid),
                               (ascii ''answers'', ans),
                               (ascii ''result'', g),
                               (ascii ''timestamp'', PStr (now_saved e))]))
      \<and> count_list (results_file (snd (save_result cfg e uid ans g w))) 10
          = count_list (results_file w) 10 + 1)
   \<and> (\<exists>t. results_file (snd (save_result cfg e uid ans g w)) = results_file w @ t)"
proof (intro conjI impI)
  assume a: "local_io e = Written"
  have f: "results_file (snd (save_result cfg e uid ans g w))
             = results_file w @ log_line uid ans g (now_saved e)"
  proof (cases "SUPABASE_ENABLED cfg")
    case False
    with a show ?thesis by (simp add: save_store_disabled world_ops)
  next
    case True
    show ?thesis
    proof (cases "build_score_data cfg ans")
      case (Inl x)
      with a True show ?thesis by (simp add: save_score_raises world_ops)
    next
      case (Inr d)
      show ?thesis
      proof (cases "remote_io e")
        case Inserted
        with a True Inr show ?thesis by (simp add: save_inserted world_ops)
      next
        case (InsertRaises x)
        with a True Inr show ?thesis by (simp add: save_insert_raises world_ops)
      qed
    qed
  qed
  show "results_file (snd (save_result cfg e uid ans g w))
        = results_file w
          @ json_dumps (PDict [(ascii ''id'', PStr uid),
                               (ascii ''answers'', ans),
                               (ascii ''result'', g),
                               (ascii ''timestamp'', PStr (now_saved e))])
          @ [10]"
    using f by (simp add: log_line_def log_record_def)
  show "10 \<notin> set (json_dumps (PDict [(ascii ''id'', PStr uid),
                               (ascii ''answers'', ans),
                               (ascii ''result'', g),
                               (ascii ''timestamp'', PStr (now_saved e))]))"
    by (rule no_lf_dumps(1))
  show "count_list (results_file (snd (save_result cfg e uid ans g w))) 10
          = count_list (results_file w) 10 + 1"
    using f count_lf_log_line [of uid ans g "now_saved e"] by simp
next
  show "\<exists>t. results_file (snd (save_result cfg e uid ans g w)) = results_file w @ t"
  proof (cases "local_io e")
    case Written
    then show ?thesis
      by (cases "SUPABASE_ENABLED cfg"; cases "build_score_data cfg ans"; cases "remote_io e")
         (simp_all add: save_store_disabled save_score_raises save_inserted save_insert_raises world_ops)
  next
    case (OpenRaises x)
    then show ?thesis by (simp add: save_open_raises world_ops)
  next
    case (WriteRaises n x)
    then show ?thesis by (simp add: save_write_raises world_ops)
  qed
qed

theorem C8_local_log_grows_one_line_witness:
  "local_io env_store_down = Written
   \<and> results_file (snd (save_result cfg_on env_store_down (ascii ''Aoi'') answers_short PNone world_old))
        = ascii ''{}'' @ [10]
          @ json_dumps (PDict [(ascii ''id'', PStr (ascii ''Aoi'')),
                               (ascii ''answers'', answers_short),
                               (ascii ''result'', PNone),
                               (ascii ''timestamp'', PStr (ascii ''2025-01-01T00:00:01''))])
          @ [10]
   \<and> count_list (results_file (snd (save_result cfg_on env_store_down (ascii ''Aoi'') answers_short PNone world_old))) 10 = 2"
proof -
  have l: "local_io env_store_down = Written"
    by (simp add: env_store_down_def env_ok_def)
  have c: "count_list (results_file world_old) 10 = 1"
    by (simp add: world_old_def ascii_def)
  show ?thesis
    using l c C8_local_log_grows_one_line [of env_store_down cfg_on "ascii ''Aoi''" answers_short PNone world_old]
    by (simp add: world_old_def env_store_down_def env_ok_def)
qed

text \<open>
  C9, as the claim states it, fails: with the store not configured the payload is not
  \<open>{"error": "store not configured"}\<close>.
\<close>

theorem C9_counterexample:
  "get_supabase_results cfg_off (Selected [])
     \<noteq> Inr (Error_payload (Plain (ascii ''store not configured'')))"
  by (simp add: get_supabase_results_def cfg_off_def MSG_NOT_CONFIGURED_def ascii_def)

text \<open>
  C9, amended: with the store not configured the endpoint returns the payload
  \<open>{"error": m}\<close> where \<open>m\<close> is the text of line 260 (\<open>Supabase\<close> followed by U+672A
  U+8A2D U+5B9A, "not configured"); with the store configured and the select
  answering, it returns \<open>status = "success"\<close>, the rows, and their number as
  \<open>count\<close>; in every case a payload is returned and nothing is raised.
\<close>

theorem C9_results_payload:
  "(\<not> SUPABASE_ENABLED cfg \<longrightarrow>
      get_supabase_results cfg sel = Inr (Error_payload (Plain MSG_NOT_CONFIGURED)))
   \<and> (SUPABASE_ENABLED cfg \<longrightarrow>
      get_supabase_results cfg (Selected rows)
        = Inr (Success_payload (ascii ''success'') rows (length rows)))
   \<and> (\<exists>p. get_supabase_results cfg sel = Inr p)"
  by (simp add: get_supabase_results_def split: select_outcome.splits)

theorem C9_results_payload_witness:
  "\<not> SUPABASE_ENABLED cfg_off \<and> SUPABASE_ENABLED cfg_on
   \<and> get_supabase_results cfg_off (SelectRaises (Raised (ascii ''down'')))
        = Inr (Error_payload (Plain (ascii ''Supabase'' @ [26410, 35373, 23450])))
   \<and> get_supabase_results cfg_on (Selected [PDict [], PDict []])
        = Inr (Success_payload (ascii ''success'') [PDict [], PDict []] 2)"
  using C9_results_payload [of cfg_off "SelectRaises (Raised (ascii ''down''))" "[]"]
        C9_results_payload [of cfg_on "Selected []" "[PDict [], PDict []]"]
  by (simp add: cfg_off_def cfg_on_def MSG_NOT_CONFIGURED_def)

text \<open>
  C10: when \<open>answers\<close> is not a list, or is a list of fewer than ten entries, the
  score summary is the empty dict, and that is what the inserted row carries; no key
  is recorded, not even for an entry such as \<open>"3"\<close>.
\<close>

theorem C10_short_answers_empty_summary:
  assumes "\<forall>xs. ans = PList xs \<longrightarrow> length xs < 10"
  shows "build_score_data cfg ans = Inr []
         \<and> (local_io e = Written \<and> SUPABASE_ENABLED cfg \<longrightarrow>
              (\<exists>rest. emitted w (snd (save_result cfg e uid ans g w))
                 = FileAppended (log_line uid ans g (now_saved e))
                   # InsertIssued \<lparr>user_id = uid, score_summary = [],
                                     gpt_comment = json_dumps g, origin = ascii ''mindscape''\<rparr>
                   # rest))"
proof -
  have b: "build_score_data cfg ans = Inr []"
    using assms by (cases ans) (simp_all add: build_score_data_def)
  have "\<exists>rest. emitted w (snd (save_result cfg e uid ans g w))
                 = FileAppended (log_line uid ans g (now_saved e))
                   # InsertIssued \<lparr>user_id = uid, score_summary = [],
                                     gpt_comment = json_dumps g, origin = ascii ''mindscape''\<rparr>
                   # rest"
    if "local_io e = Written" "SUPABASE_ENABLED cfg"
    using that b by (cases "remote_io e") (simp_all add: save_inserted save_insert_raises world_ops)
  with b show ?thesis by blast
qed

theorem C10_short_answers_empty_summary_witness:
  "answers_short = PList [PStr (ascii ''3'')]
   \<and> py_isdigit (ascii ''3'') \<and> py_int 4300 (ascii ''3'') = Inr 3
   \<and> build_score_data cfg_on answers_short = Inr []
   \<and> build_score_data cfg_on PNone = Inr []
   \<and> (\<exists>rest. emitted world0 (snd (save_result cfg_on env_ok (ascii ''Aoi'') answers_short PNone world0))
         = FileAppended (log_line (ascii ''Aoi'') answers_short PNone (now_saved env_ok))
           # InsertIssued \<lparr>user_id = ascii ''Aoi'', score_summary = [],
                             gpt_comment = json_dumps PNone, origin = ascii ''mindscape''\<rparr>
           # rest)"
proof -
  have h: "\<forall>xs. answers_short = PList xs \<longrightarrow> length xs < 10"
    by (simp add: answers_short_def)
  have h': "\<forall>xs. PNone = PList xs \<longrightarrow> length xs < 10"
    by simp
  have d: "py_isdigit (ascii ''3'')" "py_int 4300 (ascii ''3'') = Inr 3"
    by (simp_all add: ascii_def py_int_def py_isdigit_def is_digit_char_def decimal_value_def decimal_zeros_def)
  have c: "local_io env_ok = Written \<and> SUPABASE_ENABLED cfg_on"
    by (simp add: env_ok_def cfg_on_def)
  show ?thesis
    using answers_short_def d c C10_short_answers_empty_summary [OF h, of cfg_on env_ok world0 "ascii ''Aoi''" PNone]
      C10_short_answers_empty_summary [OF h', of cfg_on env_ok world0 "ascii ''Aoi''" PNone]
    by simp
qed

end
